theory Spec2Isabelle
  imports Complex_Main "HOL-Library.Log_Nat"
begin

unbundle bit_operations_syntax

text \<open>
  A shallow embedding of the session-token core of the repository: the credential gate
  (\<^verbatim>\<open>src/lib/auth/basic.ts\<close>), the token engine (\<^verbatim>\<open>src/lib/sessionToken.ts\<close>), the
  part of the schema helper that the handler uses, and the bearer branch of the request
  handler. Exceptions are values of a sum type; the functions of Node.js that the program
  calls (HMAC, base64, JSON, dates) are a record of functions that every definition takes
  as its first argument; the arithmetic of the program is that of IEEE 754 doubles.
\<close>

section \<open>JavaScript strings and values\<close>

text \<open>
  A JavaScript string is modelled as a \<^typ>\<open>string\<close>: a list of code units below 256.
  Every literal of the program and the whole token alphabet are ASCII.
\<close>

text \<open>\<^verbatim>\<open>s.split(c)\<close> for a one-character separator: never empty, one more segment than
  there are separators.\<close>

fun split_on :: "char \<Rightarrow> string \<Rightarrow> string list" where
  "split_on c [] = [[]]"
| "split_on c (x # xs) =
     (if x = c then [] # split_on c xs
      else (case split_on c xs of
              [] \<Rightarrow> [[x]]
            | y # ys \<Rightarrow> (x # y) # ys))"

text \<open>The white space and line terminators of \<^verbatim>\<open>String.prototype.trim\<close> that are
  code units below 256: TAB, LF, VT, FF, CR, SP and NBSP.\<close>

definition isWhiteSpace :: "char \<Rightarrow> bool" where
  "isWhiteSpace c = (of_char c \<in> {9, 10, 11, 12, 13, 32, 160 :: nat})"

definition trim :: "string \<Rightarrow> string" where
  "trim s = rev (dropWhile isWhiteSpace (rev (dropWhile isWhiteSpace s)))"



text \<open>\<^verbatim>\<open>s.indexOf(c)\<close>: the first position of \<open>c\<close>, or \<open>-1\<close>.\<close>

fun indexOf :: "string \<Rightarrow> char \<Rightarrow> int" where
  "indexOf [] c = -1"
| "indexOf (x # xs) c =
     (if x = c then 0 else (let r = indexOf xs c in if r = -1 then -1 else r + 1))"


definition slice1 :: "string \<Rightarrow> nat \<Rightarrow> string" where
  "slice1 s i = drop i s"

text \<open>\<^verbatim>\<open>s.charCodeAt(i)\<close>: \<open>None\<close> is NaN, the result out of range.\<close>

definition charCodeAt :: "string \<Rightarrow> nat \<Rightarrow> int option" where
  "charCodeAt s i = (if i < length s then Some (of_char (s ! i)) else None)"

text \<open>\<^verbatim>\<open>ToInt32\<close> on the results of \<open>charCodeAt\<close>: NaN becomes 0, a code unit is itself.\<close>

definition toInt32 :: "int option \<Rightarrow> int" where
  "toInt32 v = (case v of None \<Rightarrow> 0 | Some n \<Rightarrow> n)"

text \<open>The values \<^verbatim>\<open>JSON.parse\<close> can return. A number is the rational that the double
  denotes: NaN and the infinities are outside the model. An object is its list of own
  properties.\<close>

datatype json =
    JNull
  | JBool bool
  | JNum rat
  | JStr string
  | JArr "json list"
  | JObj "(string \<times> json) list"

text \<open>Property access \<^verbatim>\<open>v.k\<close> on a parsed value, for a key that is no built-in property
  (\<open>exp\<close>, \<open>scope\<close>): \<open>None\<close> is \<^verbatim>\<open>undefined\<close>.\<close>

definition getProp :: "json \<Rightarrow> string \<Rightarrow> json option" where
  "getProp v k = (case v of JObj kvs \<Rightarrow> map_of kvs k | _ \<Rightarrow> None)"

text \<open>\<^verbatim>\<open>!!v\<close>\<close>

definition truthy :: "json option \<Rightarrow> bool" where
  "truthy v =
     (case v of
        None \<Rightarrow> False
      | Some JNull \<Rightarrow> False
      | Some (JBool b) \<Rightarrow> b
      | Some (JNum r) \<Rightarrow> r \<noteq> 0
      | Some (JStr s) \<Rightarrow> s \<noteq> []
      | Some (JArr _) \<Rightarrow> True
      | Some (JObj _) \<Rightarrow> True)"

text \<open>\<^verbatim>\<open>typeof v === "object"\<close> on a parsed value.\<close>

definition typeofObject :: "json \<Rightarrow> bool" where
  "typeofObject v = (case v of JNull \<Rightarrow> True | JArr _ \<Rightarrow> True | JObj _ \<Rightarrow> True | _ \<Rightarrow> False)"

section \<open>Numbers\<close>

text \<open>
  A JavaScript number is an IEEE 754 double. The model keeps the rational that a finite
  double denotes, and rounds the exact result of \<^verbatim>\<open>+\<close>, \<^verbatim>\<open>*\<close> and \<^verbatim>\<open>/\<close> to the
  nearest double, a tie to the even significand. For \<open>2 ^ e \<le> |x| < 2 ^ (e + 1)\<close> the
  doubles next to \<open>x\<close> are the multiples of \<open>ulp x = 2 ^ (e - 52)\<close>. The exponent is not
  bounded: the overflow to an infinity (above \<open>2 ^ 1024\<close>), the subnormal numbers (below
  \<open>2 ^ - 1022\<close>), the sign of zero and NaN are outside the model.
\<close>

text \<open>The exponent \<open>e\<close> with \<open>2 ^ e \<le> |x| < 2 ^ (e + 1)\<close>, from the bit lengths of
  numerator and denominator.\<close>

definition binade :: "rat \<Rightarrow> int" where
  "binade x =
     (let (p, q) = quotient_of x;
          d = bitlen \<bar>p\<bar> - bitlen q
      in if 2 powi d \<le> \<bar>x\<bar> then d else d - 1)"

definition ulp :: "rat \<Rightarrow> rat" where
  "ulp x = 2 powi (binade x - 52)"

text \<open>The nearest integer, a tie to the even one.\<close>

definition roundHalfEven :: "rat \<Rightarrow> int" where
  "roundHalfEven y =
     (let f = \<lfloor>y\<rfloor>; r = y - of_int f
      in if r < 1 / 2 then f else if 1 / 2 < r then f + 1 else if even f then f else f + 1)"

definition roundDouble :: "rat \<Rightarrow> rat" where
  "roundDouble x = (if x = 0 then 0 else of_int (roundHalfEven (x / ulp x)) * ulp x)"

text \<open>\<^verbatim>\<open>a + b\<close>, \<^verbatim>\<open>a * b\<close> and \<^verbatim>\<open>a / b\<close> on numbers.\<close>

definition addDouble :: "rat \<Rightarrow> rat \<Rightarrow> rat" where
  "addDouble a b = roundDouble (a + b)"

definition mulDouble :: "rat \<Rightarrow> rat \<Rightarrow> rat" where
  "mulDouble a b = roundDouble (a * b)"

definition divDouble :: "rat \<Rightarrow> rat \<Rightarrow> rat" where
  "divDouble a b = roundDouble (a / b)"

section \<open>The runtime\<close>

text \<open>
  The functions of Node.js that the program calls and does not define. \<open>None\<close> stands for
  a call that throws (for \<open>strToNumber\<close>: for NaN).
  \<^item> \<open>hmacSha256 secret msg\<close>:
    \<^verbatim>\<open>createHmac("sha256", secret).update(msg).digest("base64url")\<close>
  \<^item> \<open>base64urlEncode s\<close>: \<^verbatim>\<open>Buffer.from(s).toString("base64url")\<close>
  \<^item> \<open>base64urlDecode s\<close>: \<^verbatim>\<open>Buffer.from(s, "base64url").toString("utf8")\<close>
  \<^item> \<open>base64Decode s\<close>: \<^verbatim>\<open>Buffer.from(s, "base64").toString("utf8")\<close>; the decoder of
    Node.js throws on no string, and the option keeps the \<^verbatim>\<open>catch\<close> of the caller as a
    branch
  \<^item> \<open>jsonStringify\<close>, \<open>jsonParse\<close>: \<^verbatim>\<open>JSON.stringify\<close>, \<^verbatim>\<open>JSON.parse\<close>
  \<^item> \<open>strToNumber v\<close>: \<^verbatim>\<open>ToNumber(v)\<close> for a string, an array or an object
  \<^item> \<open>isoFormat ms\<close>: the text \<^verbatim>\<open>toISOString\<close> prints for a valid time value
  \<^item> \<open>dateParse s\<close>: \<^verbatim>\<open>Date.parse(s)\<close>, \<open>None\<close> for NaN
  \<^item> \<open>randomUUID\<close>: the identifier the next call of \<^verbatim>\<open>randomUUID()\<close> returns
\<close>

record runtime =
  hmacSha256 :: "string \<Rightarrow> string \<Rightarrow> string option"
  base64urlEncode :: "string \<Rightarrow> string"
  base64urlDecode :: "string \<Rightarrow> string option"
  base64Decode :: "string \<Rightarrow> string option"
  jsonStringify :: "json \<Rightarrow> string"
  jsonParse :: "string \<Rightarrow> json option"
  strToNumber :: "json \<Rightarrow> rat option"
  isoFormat :: "int \<Rightarrow> string"
  dateParse :: "string \<Rightarrow> int option"
  randomUUID :: "string"

text \<open>The process environment and the clock: \<^verbatim>\<open>process.env\<close> and \<^verbatim>\<open>new Date()\<close>
  (milliseconds since the epoch).\<close>

record environment =
  REALTIME_SESSION_SECRET :: "string option"
  APP_PASSWORD :: "string option"
  clock :: int

section \<open>\<^verbatim>\<open>src/lib/auth/basic.ts\<close>\<close>


text \<open>
  \<open>timingSafeCompare\<close>, with the reads it makes: next to the boolean the model returns,
  in order, every \<open>charCodeAt\<close> the function evaluates, as the operand (\<open>False\<close> for
  \<open>a\<close>, \<open>True\<close> for \<open>b\<close>) and the index read.
\<close>

type_synonym reads = "(bool \<times> nat) list"

function timingSafeCompare_loop :: "string \<Rightarrow> string \<Rightarrow> nat \<Rightarrow> int \<Rightarrow> reads \<Rightarrow> int \<times> reads" where
  "timingSafeCompare_loop a b i result seen =
     (if i < length a
      then timingSafeCompare_loop a b (i + 1)
             (result OR (toInt32 (charCodeAt a i) XOR toInt32 (charCodeAt b i)))
             (seen @ [(False, i), (True, i)])
      else (result, seen))"
  by pat_completeness auto
termination
  by (relation "measure (\<lambda>(a, b, i, result, seen). length a - i)") auto

declare timingSafeCompare_loop.simps [simp del]

definition timingSafeCompare :: "string \<Rightarrow> string \<Rightarrow> bool \<times> reads" where
  "timingSafeCompare a b =
     (if length a \<noteq> length b then (False, [])
      else (let (result, seen) = timingSafeCompare_loop a b 0 0 [] in (result = 0, seen)))"

text \<open>\<open>verifyAppPassword\<close>: \<^verbatim>\<open>!expected\<close> holds for an unset and for an empty
  password; \<^verbatim>\<open>password ?? ""\<close> replaces a missing candidate.\<close>

definition verifyAppPassword :: "environment \<Rightarrow> string option \<Rightarrow> bool \<times> reads" where
  "verifyAppPassword env password =
     (case APP_PASSWORD env of
        None \<Rightarrow> (False, [])
      | Some expected \<Rightarrow>
          if expected = [] then (False, [])
          else timingSafeCompare (case password of None \<Rightarrow> [] | Some p \<Rightarrow> p) expected)"

text \<open>Timing safety as a property of the reads of a run: every position of both operands
  has been read.\<close>

definition consultsAll :: "string \<Rightarrow> string \<Rightarrow> reads \<Rightarrow> bool" where
  "consultsAll a b seen =
     (list_all (\<lambda>i. (False, i) \<in> set seen) [0..<length a] \<and>
      list_all (\<lambda>j. (True, j) \<in> set seen) [0..<length b])"

text \<open>The reads of a full pass over two operands of length \<open>n\<close>.\<close>

definition allReads :: "nat \<Rightarrow> reads" where
  "allReads n = concat (map (\<lambda>i. [(False, i), (True, i)]) [0..<n])"

section \<open>\<^verbatim>\<open>src/lib/sessionToken.ts\<close>\<close>

text \<open>What a call can throw: the two error classes of the module, with their message, and
  any other exception, with its name.\<close>

datatype js_error =
    TokenExpiredError string
  | TokenInvalidError string
  | OtherError string

record SessionTokenPayload =
  payload_jti :: string
  payload_scope :: string
  payload_iat :: rat
  payload_exp :: rat

text \<open>The object that \<open>createSessionToken\<close> returns.\<close>

record session_token =
  token :: string
  scope :: string
  expiresAt :: string

text \<open>\<open>requiredScope?: string | string[]\<close>\<close>

datatype required_scope = ScopeString string | ScopeArray "string list"

definition DEFAULT_TTL_SECONDS :: rat where
  "DEFAULT_TTL_SECONDS = 60"

definition MAX_TTL_SECONDS :: rat where
  "MAX_TTL_SECONDS = 300"

definition getSigningSecret :: "environment \<Rightarrow> string" where
  "getSigningSecret env =
     (case REALTIME_SESSION_SECRET env of
        Some s \<Rightarrow> s
      | None \<Rightarrow> (case APP_PASSWORD env of Some s \<Rightarrow> s | None \<Rightarrow> ''development-session-secret''))"

text \<open>\<^verbatim>\<open>Buffer.from(s)\<close>: the UTF-8 bytes of a string of code units below 256.\<close>

definition utf8_unit :: "char \<Rightarrow> nat list" where
  "utf8_unit c =
     (if (of_char c :: nat) < 128 then [of_char c]
      else [192 + of_char c div 64, 128 + of_char c mod 64])"

definition Buffer_from :: "string \<Rightarrow> nat list" where
  "Buffer_from s = concat (map utf8_unit s)"

text \<open>\<^verbatim>\<open>crypto.timingSafeEqual\<close> throws on buffers of different lengths.\<close>

definition timingSafeEqual :: "nat list \<Rightarrow> nat list \<Rightarrow> bool option" where
  "timingSafeEqual a b = (if length a \<noteq> length b then None else Some (a = b))"

definition safeEqual :: "nat list \<Rightarrow> nat list \<Rightarrow> bool" where
  "safeEqual a b =
     (if length a \<noteq> length b then False
      else (case timingSafeEqual a b of None \<Rightarrow> False | Some r \<Rightarrow> r))"

definition payloadJson :: "SessionTokenPayload \<Rightarrow> json" where
  "payloadJson p =
     JObj [(''jti'', JStr (payload_jti p)), (''scope'', JStr (payload_scope p)),
           (''iat'', JNum (payload_iat p)), (''exp'', JNum (payload_exp p))]"

definition headerJson :: json where
  "headerJson = JObj [(''alg'', JStr ''HS256''), (''typ'', JStr ''JWT'')]"

definition signPayload :: "runtime \<Rightarrow> SessionTokenPayload \<Rightarrow> string \<Rightarrow> js_error + string" where
  "signPayload rt payload secret =
     (let encodedHeader = base64urlEncode rt (jsonStringify rt headerJson);
          encodedPayload = base64urlEncode rt (jsonStringify rt (payloadJson payload));
          unsignedToken = encodedHeader @ ''.'' @ encodedPayload
      in case hmacSha256 rt secret unsignedToken of
           None \<Rightarrow> Inl (OtherError ''Error'')
         | Some signature \<Rightarrow> Inr (unsignedToken @ ''.'' @ signature))"

text \<open>\<^verbatim>\<open>new Date(t)\<close> for a number \<open>t\<close> (\<open>None\<close>: NaN): the time value, \<open>None\<close> for an
  invalid date. A time value is an integer of magnitude at most 8.64e15.\<close>

definition new_Date :: "rat option \<Rightarrow> int option" where
  "new_Date t =
     (case t of
        None \<Rightarrow> None
      | Some x \<Rightarrow>
          if \<bar>x\<bar> > 8640000000000000 then None
          else Some (if 0 \<le> x then \<lfloor>x\<rfloor> else \<lceil>x\<rceil>))"

definition toISOString :: "runtime \<Rightarrow> int option \<Rightarrow> js_error + string" where
  "toISOString rt d =
     (case d of None \<Rightarrow> Inl (OtherError ''RangeError'') | Some ms \<Rightarrow> Inr (isoFormat rt ms))"

text \<open>The defaults of the destructured options: \<^verbatim>\<open>now = new Date()\<close> and
  \<^verbatim>\<open>secret = getSigningSecret()\<close>.\<close>

definition defaultNow :: "environment \<Rightarrow> int option \<Rightarrow> int" where
  "defaultNow env now_arg = (case now_arg of None \<Rightarrow> clock env | Some n \<Rightarrow> n)"

definition defaultSecret :: "environment \<Rightarrow> string option \<Rightarrow> string" where
  "defaultSecret env secret_arg = (case secret_arg of None \<Rightarrow> getSigningSecret env | Some s \<Rightarrow> s)"

text \<open>The first part of \<open>createSessionToken\<close>: the defaults, the two checks and the payload.
  \<^verbatim>\<open>now.getTime()\<close> is an integer, \<^verbatim>\<open>Math.min\<close> and \<^verbatim>\<open>Math.floor\<close> are exact; the
  quotient and the sum are rounded. \<open>ttlSeconds\<close> is a number other than NaN; NaN, which
  passes both checks and makes \<open>exp\<close> NaN, is outside the model.\<close>

definition createSessionToken_payload ::
  "runtime \<Rightarrow> environment \<Rightarrow> string \<Rightarrow> rat option \<Rightarrow> int option \<Rightarrow> js_error + SessionTokenPayload" where
  "createSessionToken_payload rt env scope_arg ttlSeconds_arg now_arg =
     (let ttlSeconds = (case ttlSeconds_arg of None \<Rightarrow> DEFAULT_TTL_SECONDS | Some t \<Rightarrow> t);
          now = defaultNow env now_arg
      in if scope_arg = [] \<or> trim scope_arg = [] then Inl (TokenInvalidError ''Scope is required'')
         else if ttlSeconds \<le> 0 then Inl (TokenInvalidError ''TTL must be greater than 0'')
         else
           (let boundedTtl = min ttlSeconds MAX_TTL_SECONDS;
                issuedAtSeconds = \<lfloor>divDouble (of_int now) 1000\<rfloor>;
                exp = addDouble (of_int issuedAtSeconds) boundedTtl
            in Inr \<lparr>payload_jti = randomUUID rt, payload_scope = scope_arg,
                    payload_iat = of_int issuedAtSeconds, payload_exp = exp\<rparr>))"

definition createSessionToken ::
  "runtime \<Rightarrow> environment \<Rightarrow> string \<Rightarrow> rat option \<Rightarrow> int option \<Rightarrow> string option
     \<Rightarrow> js_error + session_token" where
  "createSessionToken rt env scope_arg ttlSeconds_arg now_arg secret_arg =
     (let secret = defaultSecret env secret_arg
      in case createSessionToken_payload rt env scope_arg ttlSeconds_arg now_arg of
           Inl e \<Rightarrow> Inl e
         | Inr payload \<Rightarrow>
             (case signPayload rt payload secret of
                Inl e \<Rightarrow> Inl e
              | Inr tok \<Rightarrow>
                  (case toISOString rt (new_Date (Some (mulDouble (payload_exp payload) 1000))) of
                     Inl e \<Rightarrow> Inl e
                   | Inr isoText \<Rightarrow> Inr \<lparr>token = tok, scope = scope_arg, expiresAt = isoText\<rparr>)))"

text \<open>\<^verbatim>\<open>ToNumber\<close> of a property read from a parsed value; \<open>None\<close> is NaN.\<close>

definition toNumber :: "runtime \<Rightarrow> json option \<Rightarrow> rat option" where
  "toNumber rt v =
     (case v of
        None \<Rightarrow> None
      | Some JNull \<Rightarrow> Some 0
      | Some (JBool b) \<Rightarrow> Some (if b then 1 else 0)
      | Some (JNum r) \<Rightarrow> Some r
      | Some w \<Rightarrow> strToNumber rt w)"

definition isSessionTokenExpired :: "runtime \<Rightarrow> json \<Rightarrow> int \<Rightarrow> bool" where
  "isSessionTokenExpired rt payload now =
     (case toNumber rt (getProp payload ''exp'') of
        None \<Rightarrow> False
      | Some e \<Rightarrow> mulDouble e 1000 \<le> of_int now)"

text \<open>\<open>assertValidPayload\<close> returns nothing or throws: \<open>None\<close> is the normal return.\<close>

definition assertValidPayload :: "runtime \<Rightarrow> json \<Rightarrow> int \<Rightarrow> required_scope option \<Rightarrow> js_error option" where
  "assertValidPayload rt payload now requiredScope =
     (if \<not> truthy (Some payload) \<or> \<not> typeofObject payload
      then Some (TokenInvalidError ''Token payload missing'')
      else if \<not> truthy (getProp payload ''exp'') \<or> \<not> truthy (getProp payload ''scope'')
      then Some (TokenInvalidError ''Token payload missing fields'')
      else if isSessionTokenExpired rt payload now
      then Some (TokenExpiredError ''Session token expired'')
      else
        (case requiredScope of
           None \<Rightarrow> None
         | Some (ScopeString []) \<Rightarrow> None
         | Some rs \<Rightarrow>
             (let scopes = (case rs of ScopeArray xs \<Rightarrow> xs | ScopeString x \<Rightarrow> [x])
              in if getProp payload ''scope'' \<notin> set (map (\<lambda>x. Some (JStr x)) scopes)
                 then Some (TokenInvalidError ''Token scope is not permitted'')
                 else None)))"

text \<open>The \<^verbatim>\<open>try\<close> block of \<open>verifySessionToken\<close> with its \<^verbatim>\<open>catch\<close>: an exception
  of the decoder or of the parser becomes a \<open>TokenInvalidError\<close>.\<close>

definition verifySessionToken_payload ::
  "runtime \<Rightarrow> string \<Rightarrow> int \<Rightarrow> required_scope option \<Rightarrow> js_error + json" where
  "verifySessionToken_payload rt encodedPayload now requiredScope =
     (case base64urlDecode rt encodedPayload of
        None \<Rightarrow> Inl (TokenInvalidError ''Token payload could not be parsed'')
      | Some payloadText \<Rightarrow>
          (case jsonParse rt payloadText of
             None \<Rightarrow> Inl (TokenInvalidError ''Token payload could not be parsed'')
           | Some payload \<Rightarrow>
               (case assertValidPayload rt payload now requiredScope of
                  Some e \<Rightarrow> Inl e
                | None \<Rightarrow> Inr payload)))"

definition verifySessionToken ::
  "runtime \<Rightarrow> environment \<Rightarrow> string \<Rightarrow> int option \<Rightarrow> required_scope option \<Rightarrow> string option
     \<Rightarrow> js_error + json" where
  "verifySessionToken rt env tok now_arg requiredScope secret_arg =
     (let now = defaultNow env now_arg;
          secret = defaultSecret env secret_arg
      in if tok = [] then Inl (TokenInvalidError ''Token is required'')
         else
           (let segments = split_on CHR ''.'' tok
            in if length segments \<noteq> 3 then Inl (TokenInvalidError ''Token format is invalid'')
               else
                 (let encodedHeader = segments ! 0;
                      encodedPayload = segments ! 1;
                      receivedSignature = segments ! 2;
                      unsignedToken = encodedHeader @ ''.'' @ encodedPayload
                  in case hmacSha256 rt secret unsignedToken of
                       None \<Rightarrow> Inl (OtherError ''Error'')
                     | Some expectedSignature \<Rightarrow>
                         if \<not> safeEqual (Buffer_from receivedSignature) (Buffer_from expectedSignature)
                         then Inl (TokenInvalidError ''Token signature mismatch'')
                         else verifySessionToken_payload rt encodedPayload now requiredScope)))"

section \<open>The schema helper, \<^verbatim>\<open>lib/zod\<close>: strings and objects of strings\<close>

record ZodIssue =
  path :: "string list"
  message :: string

record StringSchema =
  minLength :: "nat option"
  refinements :: "((string \<Rightarrow> bool) \<times> string) list"
  defaultValue :: "string option"

function decimal :: "nat \<Rightarrow> string" where
  "decimal n =
     (if n < 10 then [char_of (48 + n)]
      else decimal (n div 10) @ [char_of (48 + n mod 10)])"
  by pat_completeness auto
termination
  by (relation "measure (\<lambda>n. n)") auto

declare decimal.simps [simp del]

definition z_string :: StringSchema where
  "z_string = \<lparr>minLength = None, refinements = [], defaultValue = None\<rparr>"

definition z_min :: "nat \<Rightarrow> StringSchema \<Rightarrow> StringSchema" where
  "z_min n sch = sch\<lparr>minLength := Some n\<rparr>"

definition z_refine :: "(string \<Rightarrow> bool) \<Rightarrow> string \<Rightarrow> StringSchema \<Rightarrow> StringSchema" where
  "z_refine predicate msg sch = sch\<lparr>refinements := refinements sch @ [(predicate, msg)]\<rparr>"

text \<open>\<open>StringSchema._parse\<close>: \<open>Inl\<close> is the issue of the \<open>ZodError\<close> thrown; the data is a
  parsed value or \<^verbatim>\<open>undefined\<close> (\<open>None\<close>).\<close>

definition StringSchema_parse :: "StringSchema \<Rightarrow> json option \<Rightarrow> string list \<Rightarrow> ZodIssue + string" where
  "StringSchema_parse sch data pth =
     (case data of
        None \<Rightarrow>
          (case defaultValue sch of
             Some d \<Rightarrow> Inr d
           | None \<Rightarrow> Inl \<lparr>path = pth, message = ''Required''\<rparr>)
      | Some (JStr str) \<Rightarrow>
          (case minLength sch of
             Some n \<Rightarrow>
               if length str < n
               then Inl \<lparr>path = pth, message = ''Expected at least '' @ decimal n @ '' characters''\<rparr>
               else
                 (case find (\<lambda>(predicate, msg). \<not> predicate str) (refinements sch) of
                    Some (predicate, msg) \<Rightarrow> Inl \<lparr>path = pth, message = msg\<rparr>
                  | None \<Rightarrow> Inr str)
           | None \<Rightarrow>
               (case find (\<lambda>(predicate, msg). \<not> predicate str) (refinements sch) of
                  Some (predicate, msg) \<Rightarrow> Inl \<lparr>path = pth, message = msg\<rparr>
                | None \<Rightarrow> Inr str))
      | Some _ \<Rightarrow> Inl \<lparr>path = pth, message = ''Expected string''\<rparr>)"

text \<open>\<open>ObjectSchema._parse\<close> on an object literal (the test that the data is an object
  cannot fail there): the keys of the shape in order, the first issue wins.\<close>

fun ObjectSchema_parse ::
  "(string \<times> StringSchema) list \<Rightarrow> (string \<Rightarrow> json option) \<Rightarrow> string list \<Rightarrow> (string \<times> string) list
     \<Rightarrow> ZodIssue + (string \<times> string) list" where
  "ObjectSchema_parse [] data pth result = Inr result"
| "ObjectSchema_parse ((key, sch) # shape) data pth result =
     (case StringSchema_parse sch (data key) (pth @ [key]) of
        Inl issue \<Rightarrow> Inl issue
      | Inr v \<Rightarrow> ObjectSchema_parse shape data pth (result @ [(key, v)]))"

text \<open>\<open>Schema.parse\<close>: the failure of \<open>safeParse\<close> is thrown.\<close>

definition Schema_parse ::
  "(string \<times> StringSchema) list \<Rightarrow> (string \<Rightarrow> json option) \<Rightarrow> js_error + (string \<times> string) list" where
  "Schema_parse shape data =
     (case ObjectSchema_parse shape data [] [] of
        Inl issue \<Rightarrow> Inl (OtherError ''ZodError'')
      | Inr parsed \<Rightarrow> Inr parsed)"

section \<open>The request handler, bearer branch\<close>

text \<open>A response: the status and the JSON body, an object of strings.\<close>

record http_response =
  status :: nat
  body :: "(string \<times> string) list"

definition sessionResponseSchema :: "runtime \<Rightarrow> (string \<times> StringSchema) list" where
  "sessionResponseSchema rt =
     [(''token'', z_min 1 z_string),
      (''expiresAt'',
         z_refine (\<lambda>v. dateParse rt v \<noteq> None) ''expiresAt must be an ISO timestamp'' z_string),
      (''scope'', z_min 1 z_string)]"

text \<open>The \<^verbatim>\<open>try\<close> block of \<open>handleBearerToken\<close>.\<close>

definition handleBearerToken_try :: "runtime \<Rightarrow> environment \<Rightarrow> string \<Rightarrow> js_error + http_response" where
  "handleBearerToken_try rt env tok =
     (case verifySessionToken rt env tok None None None of
        Inl e \<Rightarrow> Inl e
      | Inr payload \<Rightarrow>
          (case toISOString rt
                  (new_Date (map_option (\<lambda>e. mulDouble e 1000) (toNumber rt (getProp payload ''exp'')))) of
             Inl e \<Rightarrow> Inl e
           | Inr isoText \<Rightarrow>
               (case Schema_parse (sessionResponseSchema rt)
                       ((\<lambda>k. None)(''token'' := Some (JStr tok),
                                    ''scope'' := getProp payload ''scope'',
                                    ''expiresAt'' := Some (JStr isoText))) of
                  Inl e \<Rightarrow> Inl e
                | Inr response \<Rightarrow> Inr \<lparr>status = 200, body = response\<rparr>)))"

definition handleBearerToken :: "runtime \<Rightarrow> environment \<Rightarrow> string \<Rightarrow> http_response" where
  "handleBearerToken rt env authHeader =
     (let tok = trim (slice1 authHeader (length ''bearer ''))
      in if tok = [] then \<lparr>status = 401, body = [(''error'', ''Session token is required'')]\<rparr>
         else
           (case handleBearerToken_try rt env tok of
              Inr response \<Rightarrow> response
            | Inl (TokenExpiredError msg) \<Rightarrow> \<lparr>status = 401, body = [(''error'', msg)]\<rparr>
            | Inl (TokenInvalidError msg) \<Rightarrow> \<lparr>status = 403, body = [(''error'', msg)]\<rparr>
            | Inl (OtherError name) \<Rightarrow>
                \<lparr>status = 500, body = [(''error'', ''Failed to validate session token'')]\<rparr>))"

section \<open>A runtime for the closed examples\<close>

text \<open>
  An executable runtime, for evaluating the program at concrete inputs: base64 and
  base64url by the alphabet (RFC 4648), JSON as a table of the documents the examples
  use, and a keyed digest that is the encoding of key and message. The theorems below
  hold for every runtime; only their instances at concrete inputs use this one.
\<close>

fun b64_groups :: "nat list \<Rightarrow> nat list" where
  "b64_groups (a # b # c # rest) =
     [a div 4, (a mod 4) * 16 + b div 16, (b mod 16) * 4 + c div 64, c mod 64] @ b64_groups rest"
| "b64_groups [a, b] = [a div 4, (a mod 4) * 16 + b div 16, (b mod 16) * 4]"
| "b64_groups [a] = [a div 4, (a mod 4) * 16]"
| "b64_groups [] = []"

fun b64_bytes :: "nat list \<Rightarrow> nat list option" where
  "b64_bytes (a # b # c # d # rest) =
     map_option (\<lambda>r. [a * 4 + b div 16, (b mod 16) * 16 + c div 4, (c mod 4) * 64 + d] @ r)
       (b64_bytes rest)"
| "b64_bytes [a, b, c] = Some [a * 4 + b div 16, (b mod 16) * 16 + c div 4]"
| "b64_bytes [a, b] = Some [a * 4 + b div 16]"
| "b64_bytes [a] = None"
| "b64_bytes [] = Some []"

definition b64url_char :: "nat \<Rightarrow> char" where
  "b64url_char v =
     char_of (if v < 26 then v + 65 else if v < 52 then v + 71 else if v < 62 then v - 4
              else if v = 62 then 45 else (95::nat))"

definition b64url_value :: "char \<Rightarrow> nat option" where
  "b64url_value c =
     (let n = (of_char c :: nat)
      in if 65 \<le> n \<and> n \<le> 90 then Some (n - 65)
         else if 97 \<le> n \<and> n \<le> 122 then Some (n - 71)
         else if 48 \<le> n \<and> n \<le> 57 then Some (n + 4)
         else if n = 45 then Some 62
         else if n = 95 then Some 63
         else None)"

text \<open>The decoder of \<^verbatim>\<open>Buffer.from(s, "base64")\<close> reads both alphabets.\<close>

definition b64_value :: "char \<Rightarrow> nat option" where
  "b64_value c =
     (if c = CHR ''+'' then Some 62 else if c = CHR ''/'' then Some 63 else b64url_value c)"

definition test_base64urlEncode :: "string \<Rightarrow> string" where
  "test_base64urlEncode s = map b64url_char (b64_groups (map of_char s))"

definition test_base64urlDecode :: "string \<Rightarrow> string option" where
  "test_base64urlDecode s =
     (if list_all (\<lambda>c. b64url_value c \<noteq> None) s
      then map_option (map char_of) (b64_bytes (map (\<lambda>c. the (b64url_value c)) s))
      else None)"

text \<open>\<^verbatim>\<open>buf.toString("utf8")\<close> into the strings of the model: a byte below 128 is a code
  unit, and so is a sequence of two bytes for a code unit from 128 to 255. Every other
  byte starts or continues what Node.js decodes to a code unit above 255 or to U+FFFD;
  these have no counterpart in a \<^typ>\<open>string\<close>, and the model writes U+00FF for the
  byte.\<close>

fun utf8_toString :: "nat list \<Rightarrow> string" where
  "utf8_toString (a # b # rest) =
     (if a < 128 then char_of a # utf8_toString (b # rest)
      else if (a = 194 \<or> a = 195) \<and> 128 \<le> b \<and> b < 192
      then char_of ((a - 192) * 64 + (b - 128)) # utf8_toString rest
      else CHR 0xFF # utf8_toString (b # rest))"
| "utf8_toString [a] = [if a < 128 then char_of a else CHR 0xFF]"
| "utf8_toString [] = []"

text \<open>\<^verbatim>\<open>Buffer.from(s, "base64").toString("utf8")\<close> never throws: the decoder of Node.js
  stops at the first \<^verbatim>\<open>=\<close>, skips every other character that is outside the
  alphabets, and drops a last group of one character.\<close>

definition test_base64Decode :: "string \<Rightarrow> string" where
  "test_base64Decode s =
     (let vs = map (\<lambda>c. the (b64_value c))
                 (filter (\<lambda>c. b64_value c \<noteq> None) (takeWhile (\<lambda>c. c \<noteq> CHR ''='') s));
          ws = (if length vs mod 4 = 1 then butlast vs else vs)
      in case b64_bytes ws of None \<Rightarrow> [] | Some bytes \<Rightarrow> utf8_toString bytes)"

definition test_hmacSha256 :: "string \<Rightarrow> string \<Rightarrow> string option" where
  "test_hmacSha256 secret msg = Some (test_base64urlEncode (secret @ ''/'' @ msg))"

text \<open>The payloads of the examples. The instant is the one of the repository's test,
  2024-01-01T00:00:00.000Z.\<close>

definition test_now :: int where
  "test_now = 1704067200000"

definition test_payload :: "rat \<Rightarrow> rat \<Rightarrow> json" where
  "test_payload issued expires =
     JObj [(''jti'', JStr ''id-1''), (''scope'', JStr ''practice''),
           (''iat'', JNum issued), (''exp'', JNum expires)]"

definition test_payload_scope5 :: json where
  "test_payload_scope5 =
     JObj [(''jti'', JStr ''id-1''), (''scope'', JNum 5),
           (''iat'', JNum 1704067200), (''exp'', JNum 1704067290)]"

definition test_documents :: "(string \<times> json) list" where
  \<open>test_documents =
     [(''{"alg":"HS256","typ":"JWT"}'', headerJson),
      (''{"jti":"id-1","scope":"practice","iat":1704067200,"exp":1704067290}'',
         test_payload 1704067200 1704067290),
      (''{"jti":"id-1","scope":"practice","iat":1704067200,"exp":1704067260}'',
         test_payload 1704067200 1704067260),
      (''{"jti":"id-1","scope":"practice","iat":1704067200,"exp":1704067500}'',
         test_payload 1704067200 1704067500),
      (''{"jti":"id-1","scope":"practice","iat":1704067200,"exp":1704067201.5}'',
         test_payload 1704067200 (3408134403 / 2)),
      (''{"jti":"id-1","scope":"practice","iat":1704067200,"exp":1704067200}'',
         test_payload 1704067200 1704067200),
      (''{"jti":"id-1","scope":"practice","iat":1704067200,"exp":1704067200.002}'',
         test_payload 1704067200 (7147375873237189 / 4194304)),
      (''{"jti":"id-1","scope":"practice","iat":8640000000000,"exp":8640000000300}'',
         test_payload 8640000000000 8640000000300),
      (''{"jti":"id-1","scope":"practice","iat":-60,"exp":0}'',
         test_payload (- 60) 0),
      (''{"jti":"id-1","scope":"practice","iat":1704067200,"exp":10000000000000}'',
         test_payload 1704067200 10000000000000),
      (''{"jti":"id-1","scope":5,"iat":1704067200,"exp":1704067290}'', test_payload_scope5)]\<close>

definition test_jsonStringify :: "json \<Rightarrow> string" where
  "test_jsonStringify v =
     (case find (\<lambda>(text, w). w = v) test_documents of
        Some (text, w) \<Rightarrow> text
      | None \<Rightarrow> ''null'')"

definition test_jsonParse :: "string \<Rightarrow> json option" where
  "test_jsonParse text = map_of test_documents text"

definition test_isoFormat :: "int \<Rightarrow> string" where
  "test_isoFormat ms =
     (if ms = 1704067290000 then ''2024-01-01T00:01:30.000Z''
      else if ms = 1704067260000 then ''2024-01-01T00:01:00.000Z''
      else if ms = 1704067500000 then ''2024-01-01T00:05:00.000Z''
      else if ms = 1704067201500 then ''2024-01-01T00:00:01.500Z''
      else if ms = 1704067200000 then ''2024-01-01T00:00:00.000Z''
      else ''1970-01-01T00:00:00.000Z'')"

definition test_rt :: runtime where
  "test_rt =
     \<lparr>hmacSha256 = test_hmacSha256,
      base64urlEncode = test_base64urlEncode,
      base64urlDecode = test_base64urlDecode,
      base64Decode = (\<lambda>s. Some (test_base64Decode s)),
      jsonStringify = test_jsonStringify,
      jsonParse = test_jsonParse,
      strToNumber = (\<lambda>v. None),
      isoFormat = test_isoFormat,
      dateParse = (\<lambda>text. if text = [] then None else Some 0),
      randomUUID = ''id-1''\<rparr>"

text \<open>The same runtime with a digest that throws.\<close>

definition failing_rt :: runtime where
  "failing_rt = test_rt\<lparr>hmacSha256 := (\<lambda>secret msg. None)\<rparr>"

definition test_env :: environment where
  "test_env = \<lparr>REALTIME_SESSION_SECRET = None, APP_PASSWORD = Some ''test-secret'', clock = test_now\<rparr>"

text \<open>What the theorems on whole tokens ask of the runtime: a document survives
  \<open>stringify\<close>, \<open>encode\<close>, \<open>decode\<close> and \<open>parse\<close>, and its encoding holds no
  separator; the digest of a message exists and holds no separator.\<close>

definition transports :: "runtime \<Rightarrow> json \<Rightarrow> bool" where
  "transports rt doc =
     (CHR ''.'' \<notin> set (base64urlEncode rt (jsonStringify rt doc)) \<and>
      (case base64urlDecode rt (base64urlEncode rt (jsonStringify rt doc)) of
         None \<Rightarrow> False
       | Some text \<Rightarrow> jsonParse rt text = Some doc))"

definition signs :: "runtime \<Rightarrow> string \<Rightarrow> string \<Rightarrow> bool" where
  "signs rt secret msg =
     (case hmacSha256 rt secret msg of None \<Rightarrow> False | Some sg \<Rightarrow> CHR ''.'' \<notin> set sg)"

text \<open>The token that \<open>signPayload\<close> builds, for any header segment and any JSON
  document as payload.\<close>

definition signedToken :: "runtime \<Rightarrow> string \<Rightarrow> json \<Rightarrow> string \<Rightarrow> string" where
  "signedToken rt encodedHeader doc secret =
     (let unsignedToken = encodedHeader @ ''.'' @ base64urlEncode rt (jsonStringify rt doc)
      in unsignedToken @ ''.'' @ (case hmacSha256 rt secret unsignedToken of None \<Rightarrow> [] | Some sg \<Rightarrow> sg))"

definition jwtHeader :: "runtime \<Rightarrow> string" where
  "jwtHeader rt = base64urlEncode rt (jsonStringify rt headerJson)"

section \<open>Properties of the helpers\<close>

subsection \<open>Doubles\<close>

lemma two_powi_pos: "(0::rat) < 2 powi n"
  by (rule zero_less_power_int) simp

lemma two_powi_add: "(2::rat) powi (m + n) = 2 powi m * 2 powi n"
  by (simp add: power_int_add)

lemma two_powi_diff: "(2::rat) powi (m - n) = 2 powi m / 2 powi n"
  by (simp add: power_int_diff)

lemma bitlen_bounds_rat:
  assumes "0 < n"
  shows "(2::rat) powi (bitlen n - 1) \<le> of_int n" and "of_int n < (2::rat) powi bitlen n"
proof -
  have b: "1 \<le> bitlen n" using assms bitlen_eq_zero_iff [of n] bitlen_nonneg [of n] by linarith
  have "2 ^ nat (bitlen n - 1) \<le> n" and "n < 2 ^ nat (bitlen n)"
    using bitlen_bounds [OF assms] by simp_all
  then have "(of_int (2 ^ nat (bitlen n - 1)) :: rat) \<le> of_int n"
    and "(of_int n :: rat) < of_int (2 ^ nat (bitlen n))"
    by (simp_all only: of_int_le_iff of_int_less_iff)
  then show "(2::rat) powi (bitlen n - 1) \<le> of_int n" and "of_int n < (2::rat) powi bitlen n"
    using b by (simp_all add: power_int_def)
qed

lemma binade_bounds:
  assumes "x \<noteq> 0"
  shows "2 powi binade x \<le> \<bar>x\<bar>" and "\<bar>x\<bar> < 2 powi (binade x + 1)"
proof -
  obtain p q where pq: "quotient_of x = (p, q)" by (cases "quotient_of x")
  have q: "0 < q" using pq by (rule quotient_of_denom_pos)
  have x: "x = of_int p / of_int q" using pq by (rule quotient_of_div)
  have p: "0 < \<bar>p\<bar>" using assms x by auto
  let ?a = "bitlen \<bar>p\<bar>" and ?b = "bitlen q"
  let ?d = "?a - ?b"
  have ax: "\<bar>x\<bar> = of_int \<bar>p\<bar> / of_int q" using q by (simp add: x)
  have qpos: "(0::rat) < of_int q" using q by simp
  have up: "\<bar>x\<bar> < 2 powi (?d + 1)"
  proof -
    have "\<bar>x\<bar> < 2 powi ?a / of_int q"
      unfolding ax using bitlen_bounds_rat(2) [OF p] qpos by (simp add: divide_strict_right_mono)
    also have "\<dots> \<le> 2 powi ?a / 2 powi (?b - 1)"
      using bitlen_bounds_rat(1) [OF q] q
      by (intro divide_left_mono mult_pos_pos) simp_all
    also have "\<dots> = 2 powi (?a - (?b - 1))"
      by (simp only: two_powi_diff)
    also have "?a - (?b - 1) = ?d + 1" by simp
    finally show ?thesis .
  qed
  have lo: "2 powi (?d - 1) \<le> \<bar>x\<bar>"
  proof -
    have "?d - 1 = (?a - 1) - ?b" by simp
    then have "(2::rat) powi (?d - 1) = 2 powi (?a - 1) / 2 powi ?b"
      by (simp only: two_powi_diff)
    also have "\<dots> \<le> of_int \<bar>p\<bar> / 2 powi ?b"
      using bitlen_bounds_rat(1) [OF p] by (intro divide_right_mono) simp_all
    also have "\<dots> \<le> of_int \<bar>p\<bar> / of_int q"
      using bitlen_bounds_rat(2) [OF q] q p
      by (intro divide_left_mono mult_pos_pos) simp_all
    finally show ?thesis by (simp only: ax)
  qed
  have bd: "binade x = (if 2 powi ?d \<le> \<bar>x\<bar> then ?d else ?d - 1)"
    by (simp add: binade_def pq)
  show "2 powi binade x \<le> \<bar>x\<bar>" using lo by (simp add: bd)
  show "\<bar>x\<bar> < 2 powi (binade x + 1)" using up by (auto simp add: bd)
qed

lemma binade_unique:
  assumes "2 powi k \<le> \<bar>x\<bar>" and "\<bar>x\<bar> < 2 powi (k + 1)"
  shows "binade x = k"
proof -
  have x: "x \<noteq> 0"
  proof
    assume "x = 0"
    then have "(2::rat) powi k \<le> 0" using assms(1) by simp
    then show False using two_powi_pos [of k] by linarith
  qed
  note b = binade_bounds [OF x]
  have "\<not> binade x < k"
  proof
    assume "binade x < k"
    then have "(2::rat) powi (binade x + 1) \<le> 2 powi k"
      by (intro power_int_increasing) simp_all
    then show False using b(2) assms(1) by linarith
  qed
  moreover have "\<not> k < binade x"
  proof
    assume "k < binade x"
    then have "(2::rat) powi (k + 1) \<le> 2 powi binade x"
      by (intro power_int_increasing) simp_all
    then show False using b(1) assms(2) by linarith
  qed
  ultimately show ?thesis by linarith
qed


lemma roundHalfEven_cases: "roundHalfEven y = \<lfloor>y\<rfloor> \<or> roundHalfEven y = \<lfloor>y\<rfloor> + 1"
  by (simp add: roundHalfEven_def Let_def)

lemma roundHalfEven_of_int: "roundHalfEven (of_int m) = m"
  by (simp add: roundHalfEven_def)

lemma roundHalfEven_nearest:
  assumes "\<bar>y - of_int m\<bar> < 1 / 2"
  shows "roundHalfEven y = m"
proof -
  have lo: "of_int m - 1 / 2 < y" and hi: "y < of_int m + 1 / 2"
    using assms by linarith+
  show ?thesis
  proof (cases "of_int m \<le> y")
    case True
    have f: "\<lfloor>y\<rfloor> = m"
      using True hi by (intro floor_unique) linarith+
    have "y - of_int m < 1 / 2" using hi by linarith
    then show ?thesis by (simp add: roundHalfEven_def f)
  next
    case False
    have f: "\<lfloor>y\<rfloor> = m - 1"
      using False lo by (intro floor_unique) simp_all
    have "1 / 2 < y - of_int (m - 1)" using lo by simp
    then show ?thesis by (simp add: roundHalfEven_def f)
  qed
qed

lemma roundHalfEven_mono:
  assumes "x \<le> y"
  shows "roundHalfEven x \<le> roundHalfEven y"
proof (cases "\<lfloor>x\<rfloor> = \<lfloor>y\<rfloor>")
  case False
  then have "\<lfloor>x\<rfloor> < \<lfloor>y\<rfloor>" using floor_mono [OF assms] by linarith
  moreover have "roundHalfEven x \<le> \<lfloor>x\<rfloor> + 1" and "\<lfloor>y\<rfloor> \<le> roundHalfEven y"
    using roundHalfEven_cases [of x] roundHalfEven_cases [of y] by linarith+
  ultimately show ?thesis by linarith
next
  case True
  then have "x - of_int \<lfloor>x\<rfloor> \<le> y - of_int \<lfloor>y\<rfloor>" using assms by simp
  then show ?thesis
    using True by (simp add: roundHalfEven_def Let_def)
qed

lemma roundHalfEven_ge: "of_int m \<le> y \<Longrightarrow> m \<le> roundHalfEven y"
  using roundHalfEven_mono [of "of_int m" y] by (simp add: roundHalfEven_of_int)

lemma roundHalfEven_le: "y \<le> of_int m \<Longrightarrow> roundHalfEven y \<le> m"
  using roundHalfEven_mono [of y "of_int m"] by (simp add: roundHalfEven_of_int)

lemma ulp_pos: "0 < ulp x"
  by (simp add: ulp_def two_powi_pos)

lemma roundDouble_ulp:
  "x \<noteq> 0 \<Longrightarrow> roundDouble x = of_int (roundHalfEven (x / ulp x)) * ulp x"
  by (simp add: roundDouble_def)

text \<open>The significand of a number that is not 0 lies between \<open>2 ^ 52\<close> and \<open>2 ^ 53\<close>.\<close>

lemma significand_bounds:
  assumes "x \<noteq> 0"
  shows "2 ^ 52 \<le> \<bar>x\<bar> / ulp x" and "\<bar>x\<bar> / ulp x < 2 ^ 53"
proof -
  have u: "ulp x = 2 powi binade x / 2 ^ 52"
    by (simp add: ulp_def two_powi_diff)
  have v: "(2::rat) powi (binade x + 1) = 2 * 2 powi binade x"
    by (simp add: two_powi_add)
  show "2 ^ 52 \<le> \<bar>x\<bar> / ulp x"
    using binade_bounds(1) [OF assms] two_powi_pos [of "binade x"]
    by (simp add: u pos_le_divide_eq)
  show "\<bar>x\<bar> / ulp x < 2 ^ 53"
    using binade_bounds(2) [OF assms] two_powi_pos [of "binade x"]
    by (simp add: u v pos_divide_less_eq)
qed


lemma ulp_times: "2 ^ 52 * ulp x = 2 powi binade x" "2 ^ 53 * ulp x = 2 powi (binade x + 1)"
  by (simp_all add: ulp_def two_powi_diff two_powi_add)

lemma roundDouble_pos:
  assumes "0 < x"
  shows "2 powi binade x \<le> roundDouble x" and "roundDouble x \<le> 2 powi (binade x + 1)"
proof -
  have x: "x \<noteq> 0" using assms by simp
  let ?y = "x / ulp x"
  have "2 ^ 52 \<le> ?y" and "?y < 2 ^ 53"
    using significand_bounds [OF x] assms by simp_all
  then have l: "of_int (2 ^ 52) \<le> ?y" and h: "?y \<le> of_int (2 ^ 53)" by simp_all
  have "(of_int (2 ^ 52) :: rat) \<le> of_int (roundHalfEven ?y)"
    and "(of_int (roundHalfEven ?y) :: rat) \<le> of_int (2 ^ 53)"
    using roundHalfEven_ge [OF l] roundHalfEven_le [OF h] by (simp_all only: of_int_le_iff)
  then have a: "(2 ^ 52 :: rat) \<le> of_int (roundHalfEven ?y)"
    and b: "of_int (roundHalfEven ?y) \<le> (2 ^ 53 :: rat)"
    by simp_all
  have "2 ^ 52 * ulp x \<le> of_int (roundHalfEven ?y) * ulp x"
    using a ulp_pos [of x] by (intro mult_right_mono) simp_all
  then show "2 powi binade x \<le> roundDouble x"
    by (simp only: ulp_times roundDouble_ulp [OF x])
  have "of_int (roundHalfEven ?y) * ulp x \<le> 2 ^ 53 * ulp x"
    using b ulp_pos [of x] by (intro mult_right_mono) simp_all
  then show "roundDouble x \<le> 2 powi (binade x + 1)"
    by (simp only: ulp_times roundDouble_ulp [OF x])
qed

lemma roundDouble_neg:
  assumes "x < 0"
  shows "- (2 powi (binade x + 1)) \<le> roundDouble x" and "roundDouble x \<le> - (2 powi binade x)"
proof -
  have x: "x \<noteq> 0" using assms by simp
  let ?y = "x / ulp x"
  have ay: "\<bar>x\<bar> / ulp x = - ?y" using assms by simp
  have "2 ^ 52 \<le> - ?y" and "- ?y < 2 ^ 53"
    using significand_bounds [OF x] by (simp_all only: ay)
  then have l: "of_int (- (2 ^ 53)) \<le> ?y" and h: "?y \<le> of_int (- (2 ^ 52))" by simp_all
  have "(of_int (- (2 ^ 53)) :: rat) \<le> of_int (roundHalfEven ?y)"
    and "(of_int (roundHalfEven ?y) :: rat) \<le> of_int (- (2 ^ 52))"
    using roundHalfEven_ge [OF l] roundHalfEven_le [OF h] by (simp_all only: of_int_le_iff)
  then have a: "(- (2 ^ 53) :: rat) \<le> of_int (roundHalfEven ?y)"
    and b: "of_int (roundHalfEven ?y) \<le> (- (2 ^ 52) :: rat)"
    by simp_all
  have "- (2 ^ 53) * ulp x \<le> of_int (roundHalfEven ?y) * ulp x"
    using a ulp_pos [of x] by (intro mult_right_mono) simp_all
  then show "- (2 powi (binade x + 1)) \<le> roundDouble x"
    by (simp only: ulp_times roundDouble_ulp [OF x] mult_minus_left)
  have "of_int (roundHalfEven ?y) * ulp x \<le> - (2 ^ 52) * ulp x"
    using b ulp_pos [of x] by (intro mult_right_mono) simp_all
  then show "roundDouble x \<le> - (2 powi binade x)"
    by (simp only: ulp_times roundDouble_ulp [OF x] mult_minus_left)
qed

lemma binade_mono:
  assumes "\<bar>x\<bar> \<le> \<bar>y\<bar>" and "x \<noteq> 0"
  shows "binade x \<le> binade y"
proof (rule ccontr)
  assume "\<not> binade x \<le> binade y"
  then have "(2::rat) powi (binade y + 1) \<le> 2 powi binade x"
    by (intro power_int_increasing) simp_all
  moreover have y: "y \<noteq> 0" using assms by auto
  ultimately show False
    using binade_bounds(1) [OF assms(2)] binade_bounds(2) [OF y] assms(1) by linarith
qed

lemma roundDouble_mono:
  assumes "x \<le> y"
  shows "roundDouble x \<le> roundDouble y"
proof -
  consider "x = 0" | "y = 0" | "x < 0" "0 < y" | "0 < x" "0 < y" | "x < 0" "y < 0"
    using assms by linarith
  then show ?thesis
  proof cases
    case 1
    then have "0 \<le> y" using assms by simp
    then have "0 \<le> roundDouble y"
      using roundDouble_pos(1) [of y] two_powi_pos [of "binade y"]
      by (cases "y = 0") (simp add: roundDouble_def, linarith)
    then show ?thesis using 1 by (simp add: roundDouble_def)
  next
    case 2
    then have "x \<le> 0" using assms by simp
    then have "roundDouble x \<le> 0"
      using roundDouble_neg(2) [of x] two_powi_pos [of "binade x"]
      by (cases "x = 0") (simp add: roundDouble_def, linarith)
    then show ?thesis using 2 by (simp add: roundDouble_def)
  next
    case 3
    then show ?thesis
      using roundDouble_neg(2) [of x] two_powi_pos [of "binade x"]
            roundDouble_pos(1) [of y] two_powi_pos [of "binade y"] by linarith
  next
    case 4
    then have b: "binade x \<le> binade y" using assms by (intro binade_mono) simp_all
    show ?thesis
    proof (cases "binade x = binade y")
      case True
      then have u: "ulp x = ulp y" by (simp add: ulp_def)
      have "x / ulp y \<le> y / ulp y"
        using assms ulp_pos [of y] by (intro divide_right_mono) simp_all
      then have "roundHalfEven (x / ulp y) \<le> roundHalfEven (y / ulp y)"
        by (rule roundHalfEven_mono)
      then have "(of_int (roundHalfEven (x / ulp y)) :: rat) \<le> of_int (roundHalfEven (y / ulp y))"
        by (simp only: of_int_le_iff)
      then have "of_int (roundHalfEven (x / ulp y)) * ulp y \<le> of_int (roundHalfEven (y / ulp y)) * ulp y"
        using ulp_pos [of y] by (intro mult_right_mono) simp_all
      then show ?thesis using 4 by (simp add: roundDouble_def u)
    next
      case False
      then have "binade x + 1 \<le> binade y" using b by simp
      then have "(2::rat) powi (binade x + 1) \<le> 2 powi binade y"
        by (intro power_int_increasing) simp_all
      then show ?thesis
        using roundDouble_pos(2) [OF 4(1)] roundDouble_pos(1) [OF 4(2)] by linarith
    qed
  next
    case 5
    then have b: "binade y \<le> binade x" using assms by (intro binade_mono) simp_all
    show ?thesis
    proof (cases "binade x = binade y")
      case True
      then have u: "ulp x = ulp y" by (simp add: ulp_def)
      have "x / ulp y \<le> y / ulp y"
        using assms ulp_pos [of y] by (intro divide_right_mono) simp_all
      then have "roundHalfEven (x / ulp y) \<le> roundHalfEven (y / ulp y)"
        by (rule roundHalfEven_mono)
      then have "(of_int (roundHalfEven (x / ulp y)) :: rat) \<le> of_int (roundHalfEven (y / ulp y))"
        by (simp only: of_int_le_iff)
      then have "of_int (roundHalfEven (x / ulp y)) * ulp y \<le> of_int (roundHalfEven (y / ulp y)) * ulp y"
        using ulp_pos [of y] by (intro mult_right_mono) simp_all
      then show ?thesis using 5 by (simp add: roundDouble_def u)
    next
      case False
      then have "binade y + 1 \<le> binade x" using b by simp
      then have "(2::rat) powi (binade y + 1) \<le> 2 powi binade x"
        by (intro power_int_increasing) simp_all
      then show ?thesis
        using roundDouble_neg(2) [OF 5(1)] roundDouble_neg(1) [OF 5(2)] by linarith
    qed
  qed
qed


lemma roundDouble_exact:
  assumes "x = of_int m * 2 powi j" and "\<bar>m\<bar> < 2 ^ 53"
  shows "roundDouble x = x"
proof (cases "x = 0")
  case True
  then show ?thesis by (simp add: roundDouble_def)
next
  case False
  let ?e = "binade x"
  have ax: "\<bar>x\<bar> = of_int \<bar>m\<bar> * 2 powi j"
    using two_powi_pos [of j] by (simp add: assms(1) abs_mult)
  have "(of_int \<bar>m\<bar> :: rat) < of_int (2 ^ 53)" using assms(2) by (simp only: of_int_less_iff)
  then have "(of_int \<bar>m\<bar> :: rat) < 2 ^ 53" by simp
  then have "\<bar>x\<bar> < 2 ^ 53 * 2 powi j"
    unfolding ax using two_powi_pos [of j] by (intro mult_strict_right_mono)
  also have "\<dots> = 2 powi (53 + j)" by (simp add: two_powi_add)
  finally have lt: "(2::rat) powi ?e < 2 powi (53 + j)"
    using binade_bounds(1) [OF False] by linarith
  have "?e < 53 + j"
  proof (rule ccontr)
    assume "\<not> ?e < 53 + j"
    then have "(2::rat) powi (53 + j) \<le> 2 powi ?e"
      by (intro power_int_increasing) simp_all
    then show False using lt by linarith
  qed
  then have k: "0 \<le> j - (?e - 52)" by simp
  define k where "k = nat (j - (?e - 52))"
  have "x / ulp x = of_int m * (2 powi j / 2 powi (?e - 52))"
    by (simp add: assms(1) ulp_def)
  also have "2 powi j / 2 powi (?e - 52) = (2::rat) powi (j - (?e - 52))"
    by (simp only: two_powi_diff)
  also have "\<dots> = 2 ^ k" using k by (simp add: power_int_def k_def)
  also have "of_int m * 2 ^ k = (of_int (m * 2 ^ k) :: rat)" by simp
  finally have i: "x / ulp x = of_int (m * 2 ^ k)" .
  have "roundDouble x = of_int (roundHalfEven (x / ulp x)) * ulp x"
    using False by (rule roundDouble_ulp)
  also have "\<dots> = x / ulp x * ulp x"
    by (simp only: i roundHalfEven_of_int)
  also have "\<dots> = x" using ulp_pos [of x] by simp
  finally show ?thesis .
qed

lemma roundDouble_of_int:
  assumes "\<bar>n\<bar> \<le> 2 ^ 53"
  shows "roundDouble (of_int n) = of_int n"
proof (cases "\<bar>n\<bar> < 2 ^ 53")
  case True
  then show ?thesis using roundDouble_exact [of "of_int n" n 0] by simp
next
  case False
  then consider "n = 2 ^ 53" | "n = - (2 ^ 53)" using assms by linarith
  then show ?thesis
  proof cases
    case 1
    then show ?thesis using roundDouble_exact [of "of_int n" 1 53] by simp
  next
    case 2
    then show ?thesis using roundDouble_exact [of "of_int n" "- 1" 53] by simp
  qed
qed

lemma roundDouble_numeral [simp]:
  "numeral k \<le> (9007199254740992 :: int) \<Longrightarrow> roundDouble (numeral k) = numeral k"
  "numeral k \<le> (9007199254740992 :: int) \<Longrightarrow> roundDouble (- numeral k) = - numeral k"
  "roundDouble 0 = 0" "roundDouble 1 = 1"
  using roundDouble_of_int [of "numeral k"] roundDouble_of_int [of "- numeral k"]
        roundDouble_of_int [of 1]
  by (simp_all add: roundDouble_def)

lemma roundDouble_at:
  assumes "2 powi e \<le> \<bar>x\<bar>" and "\<bar>x\<bar> < 2 powi (e + 1)"
    and "\<bar>x / 2 powi (e - 52) - of_int m\<bar> < 1 / 2"
  shows "roundDouble x = of_int m * 2 powi (e - 52)"
proof -
  have b: "binade x = e" using assms(1,2) by (rule binade_unique)
  have x: "x \<noteq> 0"
  proof
    assume "x = 0"
    then show False using assms(1) two_powi_pos [of e] by simp
  qed
  show ?thesis
    using roundHalfEven_nearest [OF assms(3)] x by (simp add: roundDouble_def ulp_def b)
qed

lemma floor_roundDouble_seconds:
  assumes "\<bar>n\<bar> < 8796093022208000"
  shows "\<lfloor>roundDouble (of_int n / 1000)\<rfloor> = n div 1000"
proof -
  define q where "q = n div 1000"
  define r where "r = n mod 1000"
  have r: "0 \<le> r" "r \<le> 999" by (simp_all add: r_def) 
  have n: "n = q * 1000 + r" by (simp add: q_def r_def)
  have qb: "- 8796093022208 \<le> q" "q \<le> 8796093022207"
    using assms r n by linarith+
  have x: "(of_int n :: rat) / 1000 = of_int q + of_int r / 1000" by (simp add: n)
  have "(of_int r :: rat) \<le> of_int 999" using r(2) by (simp only: of_int_le_iff)
  then have hi: "(of_int n :: rat) / 1000 \<le> of_int q + 1023 / 1024" by (simp add: x)
  have "(of_int 0 :: rat) \<le> of_int r" using r(1) by (simp only: of_int_le_iff)
  then have lo: "of_int q \<le> (of_int n :: rat) / 1000" by (simp add: x)
  have eq: "roundDouble (of_int q) = of_int q"
    using qb by (intro roundDouble_of_int) simp
  have "of_int q + 1023 / 1024 = (of_int (q * 1024 + 1023) :: rat) * 2 powi (- 10)"
    by (simp add: power_int_minus field_simps)
  moreover have "\<bar>q * 1024 + 1023\<bar> < 2 ^ 53" using qb by simp
  ultimately have eh: "roundDouble (of_int q + 1023 / 1024) = of_int q + 1023 / 1024"
    by (rule roundDouble_exact)
  have "of_int q \<le> roundDouble (of_int n / 1000)"
    using roundDouble_mono [OF lo] by (simp only: eq)
  moreover have "roundDouble (of_int n / 1000) < of_int q + 1"
    using roundDouble_mono [OF hi] by (simp only: eh)
  ultimately have "\<lfloor>roundDouble (of_int n / 1000)\<rfloor> = q"
    by (intro floor_unique)
  then show ?thesis by (simp only: q_def)
qed


lemma floor_divDouble_seconds:
  "\<bar>n\<bar> < 8796093022208000 \<Longrightarrow> \<lfloor>divDouble (of_int n) 1000\<rfloor> = n div 1000"
  by (simp add: divDouble_def floor_roundDouble_seconds)

lemma floor_divDouble_numeral:
  "numeral k < (8796093022208000 :: int) \<Longrightarrow> \<lfloor>divDouble (numeral k) 1000\<rfloor> = numeral k div 1000"
  "numeral k < (8796093022208000 :: int) \<Longrightarrow>
     \<lfloor>divDouble (- numeral k) 1000\<rfloor> = - numeral k div 1000"
  using floor_divDouble_seconds [of "numeral k"] floor_divDouble_seconds [of "- numeral k"]
  by simp_all

lemma roundDouble_ge_int:
  assumes "of_int m \<le> x" and "\<bar>m\<bar> \<le> 2 ^ 53"
  shows "of_int m \<le> roundDouble x"
  using roundDouble_mono [OF assms(1)] roundDouble_of_int [OF assms(2)] by simp

lemma roundDouble_le_int:
  assumes "x \<le> of_int m" and "\<bar>m\<bar> \<le> 2 ^ 53"
  shows "roundDouble x \<le> of_int m"
  using roundDouble_mono [OF assms(1)] roundDouble_of_int [OF assms(2)] by simp

text \<open>When the expiry of a payload is a date, the instant of issue is within 2^43 seconds
  of the epoch.\<close>

lemma date_now_bound:
  assumes "0 < b" and "b \<le> 300"
    and "\<bar>mulDouble (addDouble (of_int \<lfloor>divDouble (of_int n) 1000\<rfloor>) b) 1000\<bar> \<le> 8640000000000000"
  shows "\<bar>n\<bar> < 8796093022208000"
proof (rule ccontr)
  assume "\<not> \<bar>n\<bar> < 8796093022208000"
  then consider "8796093022208000 \<le> n" | "n \<le> - 8796093022208000" by linarith
  then show False
  proof cases
    case 1
    then have "(of_int 8796093022208000 :: rat) \<le> of_int n" by (simp only: of_int_le_iff)
    then have "of_int 8796093022208 \<le> (of_int n :: rat) / 1000" by simp
    then have "of_int 8796093022208 \<le> divDouble (of_int n) 1000"
      unfolding divDouble_def by (rule roundDouble_ge_int) simp
    then have "8796093022208 \<le> \<lfloor>divDouble (of_int n) 1000\<rfloor>" by (simp only: le_floor_iff)
    then have "(of_int 8796093022208 :: rat) \<le> of_int \<lfloor>divDouble (of_int n) 1000\<rfloor>"
      by (simp only: of_int_le_iff)
    then have "of_int 8796093022208 \<le> of_int \<lfloor>divDouble (of_int n) 1000\<rfloor> + b"
      using assms(1) by linarith
    then have "of_int 8796093022208 \<le> addDouble (of_int \<lfloor>divDouble (of_int n) 1000\<rfloor>) b"
      unfolding addDouble_def by (rule roundDouble_ge_int) simp
    then have "of_int 8796093022208000 \<le> addDouble (of_int \<lfloor>divDouble (of_int n) 1000\<rfloor>) b * 1000"
      by simp
    then have "of_int 8796093022208000 \<le> mulDouble (addDouble (of_int \<lfloor>divDouble (of_int n) 1000\<rfloor>) b) 1000"
      unfolding mulDouble_def by (rule roundDouble_ge_int) simp
    then show False using assms(3) by simp
  next
    case 2
    then have "(of_int n :: rat) \<le> of_int (- 8796093022208000)" by (simp only: of_int_le_iff)
    then have "(of_int n :: rat) / 1000 \<le> of_int (- 8796093022208)" by simp
    then have "divDouble (of_int n) 1000 \<le> of_int (- 8796093022208)"
      unfolding divDouble_def by (rule roundDouble_le_int) simp
    then have "\<lfloor>divDouble (of_int n) 1000\<rfloor> \<le> \<lfloor>of_int (- 8796093022208) :: rat\<rfloor>"
      by (rule floor_mono)
    then have "\<lfloor>divDouble (of_int n) 1000\<rfloor> \<le> - 8796093022208"
      by (simp only: floor_of_int)
    then have "(of_int \<lfloor>divDouble (of_int n) 1000\<rfloor> :: rat) \<le> of_int (- 8796093022208)"
      by (simp only: of_int_le_iff)
    then have "of_int \<lfloor>divDouble (of_int n) 1000\<rfloor> + b \<le> of_int (- 8796093021908)"
      using assms(2) by simp
    then have "addDouble (of_int \<lfloor>divDouble (of_int n) 1000\<rfloor>) b \<le> of_int (- 8796093021908)"
      unfolding addDouble_def by (rule roundDouble_le_int) simp
    then have "addDouble (of_int \<lfloor>divDouble (of_int n) 1000\<rfloor>) b * 1000 \<le> of_int (- 8796093021908000)"
      by simp
    then have "mulDouble (addDouble (of_int \<lfloor>divDouble (of_int n) 1000\<rfloor>) b) 1000 \<le> of_int (- 8796093021908000)"
      unfolding mulDouble_def by (rule roundDouble_le_int) simp
    then show False using assms(3) by simp
  qed
qed

lemma seconds_bound: "\<bar>n\<bar> < 8796093022208000 \<Longrightarrow> \<bar>n div 1000\<bar> \<le> (8796093022208 :: int)"
  by linarith

text \<open>The sum \<open>iat + ttl\<close> in doubles, for \<open>iat\<close> within 2^43 seconds of the epoch.\<close>

lemma addDouble_seconds:
  assumes "\<bar>q\<bar> \<le> 8796093022208" and "0 < b" and "b \<le> 300"
  shows "of_int q \<le> addDouble (of_int q) b"
    and "addDouble (of_int q) b \<le> of_int q + 300"
    and "1 \<le> b \<Longrightarrow> of_int q + 1 \<le> addDouble (of_int q) b"
proof -
  have "of_int q \<le> of_int q + b" using assms(2) by simp
  then show "of_int q \<le> addDouble (of_int q) b"
    unfolding addDouble_def using assms(1) by (intro roundDouble_ge_int) simp_all
  have "of_int q + b \<le> of_int (q + 300)" using assms(3) by simp
  then have "addDouble (of_int q) b \<le> of_int (q + 300)"
    unfolding addDouble_def using assms(1) by (intro roundDouble_le_int) simp_all
  then show "addDouble (of_int q) b \<le> of_int q + 300" by simp
  assume "1 \<le> b"
  then have "of_int (q + 1) \<le> of_int q + b" by simp
  then have "of_int (q + 1) \<le> addDouble (of_int q) b"
    unfolding addDouble_def using assms(1) by (intro roundDouble_ge_int) simp_all
  then show "of_int q + 1 \<le> addDouble (of_int q) b" by simp
qed

lemma addDouble_int:
  assumes "\<bar>q\<bar> \<le> 8796093022208" and "\<bar>k\<bar> \<le> 300"
  shows "addDouble (of_int q) (of_int k) = of_int (q + k)"
proof -
  have "\<bar>q + k\<bar> \<le> 2 ^ 53" using assms by simp
  then have "roundDouble (of_int (q + k)) = of_int (q + k)" by (rule roundDouble_of_int)
  then show ?thesis by (simp add: addDouble_def)
qed

text \<open>A payload that expires a second or more after \<open>floor (now / 1000)\<close> is not expired
  at \<open>now\<close>.\<close>

lemma mulDouble_after_now:
  assumes "\<bar>n\<bar> < 8796093022208000" and "of_int (n div 1000) + 1 \<le> e"
  shows "of_int n < mulDouble e 1000"
proof -
  define q where "q = n div 1000"
  define r where "r = n mod 1000"
  have "r < 1000" by (simp add: r_def)
  moreover have n: "n = q * 1000 + r" by (simp add: q_def r_def)
  ultimately have lt: "n < (q + 1) * 1000" by (simp add: algebra_simps)
  have "0 \<le> r" by (simp add: r_def)
  then have qb: "\<bar>(q + 1) * 1000\<bar> \<le> 2 ^ 53" using assms(1) n lt by simp
  have "of_int (q + 1) * 1000 \<le> e * 1000" using assms(2) by (simp add: q_def)
  then have "of_int ((q + 1) * 1000) \<le> e * 1000" by simp
  then have "of_int ((q + 1) * 1000) \<le> mulDouble e 1000"
    unfolding mulDouble_def using qb by (rule roundDouble_ge_int)
  moreover have "(of_int n :: rat) < of_int ((q + 1) * 1000)"
    using lt by (simp only: of_int_less_iff)
  ultimately show ?thesis by linarith
qed

lemma mulDouble_int:
  assumes "\<bar>t * 1000\<bar> \<le> 9007199254740992"
  shows "mulDouble (of_int t) 1000 = of_int (t * 1000)"
proof -
  have "\<bar>t * 1000\<bar> \<le> 2 ^ 53" using assms by simp
  then have "roundDouble (of_int (t * 1000)) = of_int (t * 1000)" by (rule roundDouble_of_int)
  then show ?thesis by (simp add: mulDouble_def)
qed

subsection \<open>Strings\<close>

lemma split_on_not_Nil: "split_on c s \<noteq> []"
  by (induction s) (auto split: list.splits)

lemma split_on_no_sep: "c \<notin> set s \<Longrightarrow> split_on c s = [s]"
  by (induction s) auto

lemma split_on_append: "c \<notin> set a \<Longrightarrow> split_on c (a @ c # rest) = a # split_on c rest"
  by (induction a) (auto split: list.splits)

lemma split_on_three:
  assumes "c \<notin> set h" "c \<notin> set p" "c \<notin> set s"
  shows "split_on c (h @ [c] @ p @ [c] @ s) = [h, p, s]"
  using assms by (simp add: split_on_append split_on_no_sep)


lemma indexOf_nonneg: "c \<in> set str \<Longrightarrow> 0 \<le> indexOf str c"
  by (induction str) (auto simp add: Let_def)


lemma trim_Nil: "trim [] = []"
  by (simp add: trim_def)

lemma trim_id:
  assumes "str \<noteq> []" and "\<not> isWhiteSpace (hd str)" and "\<not> isWhiteSpace (last str)"
  shows "trim str = str"
proof -
  have a: "dropWhile isWhiteSpace str = str"
    using assms(1,2) by (cases str) simp_all
  obtain ys y where str: "str = ys @ [y]"
    using assms(1) by (cases str rule: rev_cases) simp_all
  have b: "dropWhile isWhiteSpace (rev str) = rev str"
    using assms(3) by (simp add: str)
  show ?thesis by (simp add: trim_def a b)
qed

subsection \<open>Buffers and comparison\<close>

lemma div_mod_64_eq: "(a::nat) div 64 = b div 64 \<Longrightarrow> a mod 64 = b mod 64 \<Longrightarrow> a = b"
  by (metis div_mult_mod_eq)

lemma utf8_unit_inj: "utf8_unit c @ xs = utf8_unit d @ ys \<Longrightarrow> c = d \<and> xs = ys"
proof -
  assume h: "utf8_unit c @ xs = utf8_unit d @ ys"
  let ?m = "of_char c :: nat" and ?n = "of_char d :: nat"
  have "?m = ?n \<and> xs = ys"
  proof (cases "?m < 128")
    case True
    note m = this
    show ?thesis
    proof (cases "?n < 128")
      case True
      with m h show ?thesis by (simp add: utf8_unit_def)
    next
      case False
      with m h have "?m = 192 + ?n div 64" by (simp add: utf8_unit_def)
      with m show ?thesis by simp
    qed
  next
    case False
    note m = this
    show ?thesis
    proof (cases "?n < 128")
      case True
      with m h have "?n = 192 + ?m div 64" by (simp add: utf8_unit_def)
      with True show ?thesis by simp
    next
      case False
      with m h have "?m div 64 = ?n div 64" "?m mod 64 = ?n mod 64" "xs = ys"
        by (simp_all add: utf8_unit_def)
      then show ?thesis using div_mod_64_eq by blast
    qed
  qed
  then show ?thesis by simp
qed

lemma Buffer_from_inj: "Buffer_from a = Buffer_from b \<Longrightarrow> a = b"
proof (induction a arbitrary: b)
  case Nil
  then show ?case by (cases b) (auto simp: Buffer_from_def utf8_unit_def split: if_splits)
next
  case (Cons x xs)
  show ?case
  proof (cases b)
    case Nil
    with Cons.prems show ?thesis by (auto simp: Buffer_from_def utf8_unit_def split: if_splits)
  next
    case (Cons y ys)
    with Cons.prems have "utf8_unit x @ Buffer_from xs = utf8_unit y @ Buffer_from ys"
      by (simp add: Buffer_from_def)
    then have "x = y \<and> Buffer_from xs = Buffer_from ys" by (rule utf8_unit_inj)
    with Cons.IH Cons show ?thesis by simp
  qed
qed

text \<open>On the buffers of two strings, \<open>safeEqual\<close> is equality of the strings.\<close>

lemma safeEqual_iff: "safeEqual (Buffer_from a) (Buffer_from b) \<longleftrightarrow> a = b"
  by (auto simp: safeEqual_def timingSafeEqual_def dest: Buffer_from_inj)

lemma loop_reads:
  "snd (timingSafeCompare_loop a b i r seen) =
     seen @ concat (map (\<lambda>k. [(False, k), (True, k)]) [i..<length a])"
proof (induction a b i r seen rule: timingSafeCompare_loop.induct)
  case (1 a b i result seen)
  show ?case
  proof (cases "i < length a")
    case True
    then show ?thesis
      using 1 by (subst timingSafeCompare_loop.simps) (simp add: upt_conv_Cons)
  next
    case False
    then show ?thesis by (subst timingSafeCompare_loop.simps) simp
  qed
qed

lemma xor_zero_int: "(x::int) XOR y = 0 \<longleftrightarrow> x = y"
  by (metis bit.xor_left_self xor.right_neutral)

lemma loop_result:
  "length a = length b \<Longrightarrow>
   fst (timingSafeCompare_loop a b i r seen) = 0 \<longleftrightarrow> r = 0 \<and> drop i a = drop i b"
proof (induction a b i r seen rule: timingSafeCompare_loop.induct)
  case (1 a b i result seen)
  show ?case
  proof (cases "i < length a")
    case True
    have d: "drop i a = a ! i # drop (Suc i) a" "drop i b = b ! i # drop (Suc i) b"
      using True 1(2) by (simp_all add: Cons_nth_drop_Suc)
    show ?thesis
      using True 1 d
      by (subst timingSafeCompare_loop.simps)
         (simp add: or_eq_0_iff xor_zero_int charCodeAt_def toInt32_def)
  next
    case False
    then show ?thesis
      using 1(2) by (subst timingSafeCompare_loop.simps) simp
  qed
qed

lemma timingSafeCompare_equal_length:
  assumes "length a = length b"
  shows "timingSafeCompare a b = (a = b, allReads (length a))"
proof -
  let ?l = "timingSafeCompare_loop a b 0 0 []"
  have s: "snd ?l = allReads (length a)"
    by (simp only: loop_reads allReads_def append_Nil)
  have f: "fst ?l = 0 \<longleftrightarrow> a = b"
    by (simp only: loop_result [OF assms] drop_0 simp_thms)
  have "timingSafeCompare a b = (fst ?l = 0, snd ?l)"
    by (simp only: timingSafeCompare_def assms simp_thms if_False Let_def case_prod_beta)
  then show ?thesis by (simp only: s f)
qed

lemma consultsAll_allReads:
  assumes "length a = n" "length b = n"
  shows "consultsAll a b (allReads n)"
proof -
  have "\<And>i. i < n \<Longrightarrow> (False, i) \<in> set (allReads n) \<and> (True, i) \<in> set (allReads n)"
    by (auto simp: allReads_def)
  then show ?thesis using assms by (simp add: consultsAll_def list_all_iff)
qed

subsection \<open>Values and time\<close>

lemma truthy_simps:
  "truthy None = False"
  "truthy (Some JNull) = False"
  "truthy (Some (JBool b)) = b"
  "truthy (Some (JNum r)) = (r \<noteq> 0)"
  "truthy (Some (JStr str)) = (str \<noteq> [])"
  "truthy (Some (JArr vs)) = True"
  "truthy (Some (JObj kvs)) = True"
  by (simp_all add: truthy_def)

text \<open>The numbers of the examples that are no integers: \<open>1704067201.5\<close>, the sum of
  \<open>1704067200\<close> and the double \<open>1e-8\<close>, and 1000 times the double \<open>1704067200.002\<close>.\<close>

lemma test_doubles:
  "roundDouble (3408134403 / 2) = 3408134403 / 2"
  "roundDouble (1704067200 + 3022314549036573 / 302231454903657293676544) = 1704067200"
  "roundDouble (7147375873237189 / 4194304 * 1000) = 1704067200002"
  "roundDouble 10000000000000000 = 10000000000000000"
  by code_simp+

subsection \<open>The steps of \<open>verifySessionToken\<close>\<close>

lemma verifySessionToken_empty:
  "verifySessionToken rt env [] now_arg req secret_arg = Inl (TokenInvalidError ''Token is required'')"
  by (simp add: verifySessionToken_def)

lemma verifySessionToken_format:
  assumes "tok \<noteq> []" "length (split_on CHR ''.'' tok) \<noteq> 3"
  shows "verifySessionToken rt env tok now_arg req secret_arg =
           Inl (TokenInvalidError ''Token format is invalid'')"
  using assms by (simp add: verifySessionToken_def)

lemma verifySessionToken_segments:
  assumes "split_on CHR ''.'' tok = [h, p, s]"
  shows "verifySessionToken rt env tok now_arg req secret_arg =
           (case hmacSha256 rt (defaultSecret env secret_arg) (h @ ''.'' @ p) of
              None \<Rightarrow> Inl (OtherError ''Error'')
            | Some e \<Rightarrow>
                if s \<noteq> e then Inl (TokenInvalidError ''Token signature mismatch'')
                else verifySessionToken_payload rt p (defaultNow env now_arg) req)"
proof -
  have "tok \<noteq> []" using assms by auto
  then show ?thesis
    using assms by (simp add: verifySessionToken_def safeEqual_iff split: option.splits)
qed

lemma verifySessionToken_signed:
  assumes "split_on CHR ''.'' tok = [h, p, s]"
    and "hmacSha256 rt (defaultSecret env secret_arg) (h @ ''.'' @ p) = Some s"
  shows "verifySessionToken rt env tok now_arg req secret_arg =
           verifySessionToken_payload rt p (defaultNow env now_arg) req"
  using assms by (simp add: verifySessionToken_segments)

lemma verifySessionToken_payload_parsed:
  assumes "base64urlDecode rt p = Some decoded" "jsonParse rt decoded = Some payload"
  shows "verifySessionToken_payload rt p now req =
           (case assertValidPayload rt payload now req of Some e \<Rightarrow> Inl e | None \<Rightarrow> Inr payload)"
  using assms by (simp add: verifySessionToken_payload_def)

lemma assertValidPayload_expired:
  assumes "truthy (getProp payload ''exp'')" "truthy (getProp payload ''scope'')"
    and "isSessionTokenExpired rt payload now"
  shows "assertValidPayload rt payload now req = Some (TokenExpiredError ''Session token expired'')"
proof -
  obtain kvs where "payload = JObj kvs"
    using assms(1) by (cases payload) (simp_all add: getProp_def truthy_def)
  then show ?thesis using assms by (simp add: assertValidPayload_def truthy_def typeofObject_def)
qed

lemma assertValidPayload_not_expired:
  assumes "\<not> isSessionTokenExpired rt payload now"
  shows "assertValidPayload rt payload now req \<noteq> Some (TokenExpiredError m)"
  using assms
  by (auto simp add: assertValidPayload_def Let_def split: option.splits required_scope.splits list.splits if_splits)

lemma assertValidPayload_missing:
  assumes "\<not> typeofObject payload \<or> \<not> truthy (Some payload) \<or>
           \<not> truthy (getProp payload ''exp'') \<or> \<not> truthy (getProp payload ''scope'')"
  shows "\<exists>m. assertValidPayload rt payload now req = Some (TokenInvalidError m)"
  using assms by (auto simp add: assertValidPayload_def)

lemma assertValidPayload_ok:
  assumes "truthy (getProp payload ''exp'')" "truthy (getProp payload ''scope'')"
    and "\<not> isSessionTokenExpired rt payload now"
  shows "assertValidPayload rt payload now None = None"
proof -
  obtain kvs where "payload = JObj kvs"
    using assms(1) by (cases payload) (simp_all add: getProp_def truthy_def)
  then show ?thesis using assms by (simp add: assertValidPayload_def truthy_def typeofObject_def)
qed

lemma assertValidPayload_None:
  assumes "assertValidPayload rt payload now req = None"
  shows "truthy (getProp payload ''exp'') \<and> truthy (getProp payload ''scope'')"
  using assms by (simp add: assertValidPayload_def split: if_splits)

lemma verifySessionToken_payload_Inr:
  assumes "verifySessionToken_payload rt p now req = Inr payload"
  shows "assertValidPayload rt payload now req = None"
  using assms by (auto simp add: verifySessionToken_payload_def split: option.splits)

lemma verifySessionToken_Inr:
  assumes "verifySessionToken rt env tok now_arg req secret_arg = Inr payload"
  shows "truthy (getProp payload ''exp'') \<and> truthy (getProp payload ''scope'')"
proof -
  have "\<exists>p. verifySessionToken_payload rt p (defaultNow env now_arg) req = Inr payload"
    using assms
    by (auto simp add: verifySessionToken_def Let_def split: if_splits option.splits)
  then show ?thesis
    using verifySessionToken_payload_Inr assertValidPayload_None by blast
qed

subsection \<open>The steps of \<open>createSessionToken\<close>\<close>

lemma createSessionToken_payload_ok:
  assumes "trim sc \<noteq> []" and "0 < ttl"
  shows "createSessionToken_payload rt env sc (Some ttl) now_arg =
           Inr \<lparr>payload_jti = randomUUID rt, payload_scope = sc,
                payload_iat = of_int \<lfloor>divDouble (of_int (defaultNow env now_arg)) 1000\<rfloor>,
                payload_exp = addDouble (of_int \<lfloor>divDouble (of_int (defaultNow env now_arg)) 1000\<rfloor>)
                                (min ttl 300)\<rparr>"
proof -
  have "sc \<noteq> []" using assms(1) trim_Nil by auto
  then show ?thesis
    using assms by (simp add: createSessionToken_payload_def MAX_TTL_SECONDS_def Let_def)
qed

lemma createSessionToken_payload_default:
  "createSessionToken_payload rt env sc None now_arg =
   createSessionToken_payload rt env sc (Some 60) now_arg"
  by (simp add: createSessionToken_payload_def DEFAULT_TTL_SECONDS_def)

lemma createSessionToken_payload_nonpositive:
  assumes "ttl \<le> 0"
  shows "\<exists>m. createSessionToken_payload rt env sc (Some ttl) now_arg = Inl (TokenInvalidError m)"
  using assms by (simp add: createSessionToken_payload_def)



lemma signPayload_signedToken:
  assumes "hmacSha256 rt secret (jwtHeader rt @ ''.'' @ base64urlEncode rt (jsonStringify rt (payloadJson P))) = Some sg"
  shows "signPayload rt P secret = Inr (signedToken rt (jwtHeader rt) (payloadJson P) secret)"
  using assms by (simp add: signPayload_def signedToken_def jwtHeader_def Let_def)


lemma createSessionToken_ok:
  assumes "createSessionToken_payload rt env sc ttl_arg now_arg = Inr P"
    and "signs rt (defaultSecret env secret_arg)
           (jwtHeader rt @ ''.'' @ base64urlEncode rt (jsonStringify rt (payloadJson P)))"
    and "\<bar>mulDouble (payload_exp P) 1000\<bar> \<le> 8640000000000000"
  shows "createSessionToken rt env sc ttl_arg now_arg secret_arg =
           Inr \<lparr>token = signedToken rt (jwtHeader rt) (payloadJson P) (defaultSecret env secret_arg),
                scope = sc,
                expiresAt = isoFormat rt (if 0 \<le> mulDouble (payload_exp P) 1000
                                          then \<lfloor>mulDouble (payload_exp P) 1000\<rfloor>
                                          else \<lceil>mulDouble (payload_exp P) 1000\<rceil>)\<rparr>"
proof -
  obtain sg where sg: "hmacSha256 rt (defaultSecret env secret_arg)
      (jwtHeader rt @ ''.'' @ base64urlEncode rt (jsonStringify rt (payloadJson P))) = Some sg"
    using assms(2) by (auto simp add: signs_def split: option.splits)
  have d: "toISOString rt (new_Date (Some (mulDouble (payload_exp P) 1000))) =
      Inr (isoFormat rt (if 0 \<le> mulDouble (payload_exp P) 1000
                         then \<lfloor>mulDouble (payload_exp P) 1000\<rfloor>
                         else \<lceil>mulDouble (payload_exp P) 1000\<rceil>))"
    using assms(3) by (simp add: toISOString_def new_Date_def)
  show ?thesis
    using assms(1) signPayload_signedToken [OF sg] d
    by (simp add: createSessionToken_def)
qed


subsection \<open>The steps of \<open>handleBearerToken\<close>\<close>

lemma sessionResponseSchema_parse:
  assumes "tok \<noteq> []" and "sc \<noteq> []" and "dateParse rt isoText \<noteq> None"
  shows "Schema_parse (sessionResponseSchema rt)
           ((\<lambda>k. None)(''token'' := Some (JStr tok), ''scope'' := Some (JStr sc),
                        ''expiresAt'' := Some (JStr isoText))) =
         Inr [(''token'', tok), (''expiresAt'', isoText), (''scope'', sc)]"
  using assms
  by (simp add: Schema_parse_def sessionResponseSchema_def StringSchema_parse_def z_min_def
        z_refine_def z_string_def)

lemma sessionResponseSchema_parse_scope:
  assumes "\<forall>sc. v \<noteq> Some (JStr sc)"
  shows "Schema_parse (sessionResponseSchema rt)
           ((\<lambda>k. None)(''token'' := Some (JStr tok), ''scope'' := v,
                        ''expiresAt'' := Some (JStr isoText))) = Inl (OtherError ''ZodError'')"
proof -
  have "\<exists>issue. StringSchema_parse (z_min 1 z_string) v [''scope''] = Inl issue"
    using assms
    by (auto simp add: StringSchema_parse_def z_min_def z_string_def split: option.splits json.splits)
  then show ?thesis
    by (auto simp add: Schema_parse_def sessionResponseSchema_def split: sum.splits)
qed

lemma handleBearerToken_unfold:
  assumes "tok = trim (slice1 authHeader (length ''bearer ''))" and "tok \<noteq> []"
  shows "handleBearerToken rt env authHeader =
      (case handleBearerToken_try rt env tok of
         Inr response \<Rightarrow> response
       | Inl (TokenExpiredError msg) \<Rightarrow> \<lparr>status = 401, body = [(''error'', msg)]\<rparr>
       | Inl (TokenInvalidError msg) \<Rightarrow> \<lparr>status = 403, body = [(''error'', msg)]\<rparr>
       | Inl (OtherError name) \<Rightarrow>
           \<lparr>status = 500, body = [(''error'', ''Failed to validate session token'')]\<rparr>)"
  using assms by (simp add: handleBearerToken_def Let_def)

subsection \<open>The runtime of the examples\<close>

lemma of_char_lt_256: "(of_char c :: nat) < 256"
proof -
  have "(of_char c :: nat) mod 256 = of_char c" by simp
  then show ?thesis by (metis mod_less_divisor zero_less_numeral)
qed

lemma b64url_value_char: "v < 64 \<Longrightarrow> b64url_value (b64url_char v) = Some v"
  by (simp add: b64url_value_def b64url_char_def Let_def) arith

lemma b64url_char_not_dot: "b64url_char v \<noteq> CHR ''.''"
proof
  assume "b64url_char v = CHR ''.''"
  then have "(of_char (b64url_char v) :: nat) = of_char CHR ''.''" by simp
  then show False
    by (simp add: b64url_char_def split: if_splits)
qed

lemma b64url_char_not_space: "\<not> isWhiteSpace (b64url_char v)"
  by (simp add: isWhiteSpace_def b64url_char_def) arith

lemma b64_groups_lt: "list_all (\<lambda>b. b < 256) bs \<Longrightarrow> list_all (\<lambda>v. v < 64) (b64_groups bs)"
  by (induction bs rule: b64_groups.induct) auto

lemma b64_groups_not_Nil: "bs \<noteq> [] \<Longrightarrow> b64_groups bs \<noteq> []"
  by (induction bs rule: b64_groups.induct) simp_all

lemma sextet_first: "a < 256 \<Longrightarrow> b < 256 \<Longrightarrow> (a div 4) * 4 + ((a mod 4) * 16 + b div 16) div 16 = (a::nat)"
  by simp

lemma sextet_second:
  "a < 256 \<Longrightarrow> b < 256 \<Longrightarrow> c < 256 \<Longrightarrow>
   (((a mod 4) * 16 + b div 16) mod 16) * 16 + ((b mod 16) * 4 + c div 64) div 4 = (b::nat)"
  by simp

lemma sextet_third:
  "b < 256 \<Longrightarrow> c < 256 \<Longrightarrow> (((b mod 16) * 4 + c div 64) mod 4) * 64 + c mod 64 = (c::nat)"
  by simp

lemma b64_bytes_groups: "list_all (\<lambda>b. b < 256) bs \<Longrightarrow> b64_bytes (b64_groups bs) = Some bs"
proof (induction bs rule: b64_groups.induct)
  case (1 a b c rest)
  then have r: "b64_bytes (b64_groups rest) = Some rest" and lt: "a < 256" "b < 256" "c < 256"
    by simp_all
  show ?case
    using r sextet_first [OF lt(1) lt(2)] sextet_second [OF lt] sextet_third [OF lt(2) lt(3)]
    by simp
next
  case (2 a b)
  then have lt: "a < 256" "b < 256" by simp_all
  show ?case using sextet_first [OF lt] sextet_second [OF lt, of 0] by simp
next
  case (3 a)
  then have lt: "a < 256" by simp
  show ?case using sextet_first [OF lt, of 0] by simp
next
  case 4
  then show ?case by simp
qed

lemma test_base64url_no_dot: "CHR ''.'' \<notin> set (test_base64urlEncode s)"
proof
  assume "CHR ''.'' \<in> set (test_base64urlEncode s)"
  then obtain v where "b64url_char v = CHR ''.''"
    by (auto simp: test_base64urlEncode_def)
  then show False using b64url_char_not_dot by blast
qed

lemma test_base64url_roundtrip: "test_base64urlDecode (test_base64urlEncode s) = Some s"
proof -
  let ?bs = "map of_char s :: nat list"
  have lt: "list_all (\<lambda>b. b < 256) ?bs"
    by (simp add: list_all_iff of_char_lt_256)
  have v: "list_all (\<lambda>v. v < 64) (b64_groups ?bs)" using lt by (rule b64_groups_lt)
  then have a: "list_all (\<lambda>c. b64url_value c \<noteq> None) (map b64url_char (b64_groups ?bs))"
    by (simp add: list_all_iff b64url_value_char)
  have m: "map (\<lambda>c. the (b64url_value c)) (map b64url_char (b64_groups ?bs)) = b64_groups ?bs"
    using v by (simp add: list_all_iff b64url_value_char map_idI)
  show ?thesis
    using a m b64_bytes_groups [OF lt]
    by (simp add: test_base64urlDecode_def test_base64urlEncode_def comp_def)
qed

lemma test_base64urlEncode_last:
  assumes "str \<noteq> []"
  shows "test_base64urlEncode str \<noteq> [] \<and> \<not> isWhiteSpace (last (test_base64urlEncode str))"
proof -
  have n: "b64_groups (map of_char str) \<noteq> []"
    using assms by (intro b64_groups_not_Nil) simp
  then show ?thesis
    by (simp add: test_base64urlEncode_def last_map b64url_char_not_space)
qed

lemma test_rt_simps:
  "hmacSha256 test_rt = test_hmacSha256"
  "base64urlEncode test_rt = test_base64urlEncode"
  "base64urlDecode test_rt = test_base64urlDecode"
  "base64Decode test_rt = (\<lambda>s. Some (test_base64Decode s))"
  "jsonStringify test_rt = test_jsonStringify"
  "jsonParse test_rt = test_jsonParse"
  "strToNumber test_rt = (\<lambda>v. None)"
  "isoFormat test_rt = test_isoFormat"
  "dateParse test_rt = (\<lambda>text. if text = [] then None else Some 0)"
  "randomUUID test_rt = ''id-1''"
  by (simp_all add: test_rt_def)

lemma test_signs: "signs test_rt secret msg"
  by (simp add: signs_def test_rt_simps test_hmacSha256_def test_base64url_no_dot)

lemma test_transports:
  "test_jsonParse (test_jsonStringify doc) = Some doc \<Longrightarrow> transports test_rt doc"
  by (simp add: transports_def test_rt_simps test_base64url_no_dot test_base64url_roundtrip)

lemma test_signedToken_split:
  assumes "CHR ''.'' \<notin> set h"
  shows "split_on CHR ''.'' (signedToken test_rt h doc secret) =
           [h, test_base64urlEncode (test_jsonStringify doc),
            test_base64urlEncode (secret @ ''/'' @ h @ ''.'' @ test_base64urlEncode (test_jsonStringify doc))]"
  using assms split_on_three [of "CHR ''.''" h "test_base64urlEncode (test_jsonStringify doc)"
      "test_base64urlEncode (secret @ ''/'' @ h @ ''.'' @ test_base64urlEncode (test_jsonStringify doc))"]
  by (simp add: signedToken_def test_rt_simps test_hmacSha256_def test_base64url_no_dot)

lemma test_tampered_split:
  assumes "CHR ''.'' \<notin> set h"
  shows "split_on CHR ''.'' (signedToken test_rt h doc secret @ ''x'') =
           [h, test_base64urlEncode (test_jsonStringify doc),
            test_base64urlEncode (secret @ ''/'' @ h @ ''.'' @ test_base64urlEncode (test_jsonStringify doc)) @ ''x'']"
  using assms split_on_three [of "CHR ''.''" h "test_base64urlEncode (test_jsonStringify doc)"
      "test_base64urlEncode (secret @ ''/'' @ h @ ''.'' @ test_base64urlEncode (test_jsonStringify doc)) @ ''x''"]
  by (simp add: signedToken_def test_rt_simps test_hmacSha256_def test_base64url_no_dot)

lemma test_verify_signedToken:
  assumes "CHR ''.'' \<notin> set h" "test_jsonParse (test_jsonStringify doc) = Some doc"
  shows "verifySessionToken test_rt env (signedToken test_rt h doc secret) now_arg req (Some secret) =
           (case assertValidPayload test_rt doc (defaultNow env now_arg) req of
              Some e \<Rightarrow> Inl e
            | None \<Rightarrow> Inr doc)"
proof -
  let ?p = "test_base64urlEncode (test_jsonStringify doc)"
  let ?s = "test_base64urlEncode (secret @ ''/'' @ h @ ''.'' @ ?p)"
  have "verifySessionToken test_rt env (signedToken test_rt h doc secret) now_arg req (Some secret) =
          verifySessionToken_payload test_rt ?p (defaultNow env now_arg) req"
    by (rule verifySessionToken_signed [where h = h and s = ?s])
       (simp_all add: test_signedToken_split assms test_rt_simps test_hmacSha256_def defaultSecret_def)
  also have "\<dots> = (case assertValidPayload test_rt doc (defaultNow env now_arg) req of
              Some e \<Rightarrow> Inl e | None \<Rightarrow> Inr doc)"
    by (rule verifySessionToken_payload_parsed [where decoded = "test_jsonStringify doc"])
       (simp_all add: test_rt_simps test_base64url_roundtrip assms)
  finally show ?thesis .
qed

lemma test_verify_signedToken_default:
  assumes "CHR ''.'' \<notin> set h" and "test_jsonParse (test_jsonStringify doc) = Some doc"
    and "getSigningSecret env = secret"
  shows "verifySessionToken test_rt env (signedToken test_rt h doc secret) None req None =
           (case assertValidPayload test_rt doc (clock env) req of
              Some e \<Rightarrow> Inl e
            | None \<Rightarrow> Inr doc)"
proof -
  let ?p = "test_base64urlEncode (test_jsonStringify doc)"
  let ?s = "test_base64urlEncode (secret @ ''/'' @ h @ ''.'' @ ?p)"
  have "verifySessionToken test_rt env (signedToken test_rt h doc secret) None req None =
          verifySessionToken_payload test_rt ?p (defaultNow env None) req"
    by (rule verifySessionToken_signed [where h = h and s = ?s])
       (simp_all add: test_signedToken_split assms test_rt_simps test_hmacSha256_def defaultSecret_def)
  also have "\<dots> = (case assertValidPayload test_rt doc (clock env) req of
              Some e \<Rightarrow> Inl e | None \<Rightarrow> Inr doc)"
    using verifySessionToken_payload_parsed
            [where rt = test_rt and p = ?p and decoded = "test_jsonStringify doc" and payload = doc
               and now = "clock env" and req = req]
    by (simp add: test_rt_simps test_base64url_roundtrip assms defaultNow_def)
  finally show ?thesis .
qed

lemma test_documents_parse:
  "test_jsonParse (test_jsonStringify headerJson) = Some headerJson"
  "test_jsonParse (test_jsonStringify (test_payload 1704067200 1704067290)) = Some (test_payload 1704067200 1704067290)"
  "test_jsonParse (test_jsonStringify (test_payload 1704067200 1704067260)) = Some (test_payload 1704067200 1704067260)"
  "test_jsonParse (test_jsonStringify (test_payload 1704067200 1704067500)) = Some (test_payload 1704067200 1704067500)"
  "test_jsonParse (test_jsonStringify (test_payload 1704067200 (3408134403 / 2))) = Some (test_payload 1704067200 (3408134403 / 2))"
  "test_jsonParse (test_jsonStringify (test_payload (- 60) 0)) = Some (test_payload (- 60) 0)"
  "test_jsonParse (test_jsonStringify (test_payload 1704067200 10000000000000)) = Some (test_payload 1704067200 10000000000000)"
  "test_jsonParse (test_jsonStringify (test_payload 1704067200 1704067200)) = Some (test_payload 1704067200 1704067200)"
  "test_jsonParse (test_jsonStringify (test_payload 1704067200 (7147375873237189 / 4194304))) =
     Some (test_payload 1704067200 (7147375873237189 / 4194304))"
  "test_jsonParse (test_jsonStringify (test_payload 8640000000000 8640000000300)) =
     Some (test_payload 8640000000000 8640000000300)"
  by (simp_all add: test_jsonParse_def test_jsonStringify_def test_documents_def test_payload_def headerJson_def)

lemma test_payload_props:
  "getProp (test_payload a b) ''exp'' = Some (JNum b)"
  "getProp (test_payload a b) ''scope'' = Some (JStr ''practice'')"
  "typeofObject (test_payload a b)"
  "truthy (Some (test_payload a b))"
  by (simp_all add: getProp_def test_payload_def typeofObject_def truthy_def)

lemma test_payloadJson:
  "payloadJson \<lparr>payload_jti = ''id-1'', payload_scope = ''practice'', payload_iat = a, payload_exp = b\<rparr> =
     test_payload a b"
  by (simp add: payloadJson_def test_payload_def)

lemma test_digest_k: "test_hmacSha256 ''k'' ''aA.bB'' = Some ''ay9hQS5iQg''"
  by (simp add: test_hmacSha256_def test_base64urlEncode_def b64url_char_def char_of_def bit_Suc_0_iff)

lemma test_digest_k_dot: "test_hmacSha256 ''k'' ''aA.'' = Some ''ay9hQS4''"
  by (simp add: test_hmacSha256_def test_base64urlEncode_def b64url_char_def char_of_def bit_Suc_0_iff)

lemma test_decode_empty: "test_base64urlDecode [] = Some []" "test_jsonParse [] = None"
  by (simp_all add: test_base64urlDecode_def test_jsonParse_def test_documents_def)

lemma test_jwtHeader_no_dot: "CHR ''.'' \<notin> set (jwtHeader test_rt)"
  by (simp add: jwtHeader_def test_rt_simps test_base64url_no_dot)

lemma test_jwtHeader_value: "jwtHeader test_rt = ''eyJhbGciOiJIUzI1NiIsInR5cCI6IkpXVCJ9''"
  by (simp add: jwtHeader_def test_rt_simps test_jsonStringify_def test_documents_def headerJson_def
        test_base64urlEncode_def b64url_char_def char_of_def bit_Suc_0_iff)

lemma test_token_trim:
  "trim (signedToken test_rt (jwtHeader test_rt) doc secret) =
     signedToken test_rt (jwtHeader test_rt) doc secret"
proof -
  let ?sg = "test_base64urlEncode (secret @ ''/'' @ jwtHeader test_rt @ ''.'' @
               test_base64urlEncode (test_jsonStringify doc))"
  have sg: "?sg \<noteq> [] \<and> \<not> isWhiteSpace (last ?sg)"
    by (rule test_base64urlEncode_last) simp
  have t: "signedToken test_rt (jwtHeader test_rt) doc secret =
      (jwtHeader test_rt @ ''.'' @ test_base64urlEncode (test_jsonStringify doc) @ ''.'') @ ?sg"
    by (simp add: signedToken_def test_rt_simps test_hmacSha256_def)
  have l: "last (signedToken test_rt (jwtHeader test_rt) doc secret) = last ?sg"
    unfolding t using sg by (simp only: last_append if_False)
  have h: "hd (signedToken test_rt (jwtHeader test_rt) doc secret) = CHR ''e''"
    unfolding t by (simp add: test_jwtHeader_value)
  have n: "signedToken test_rt (jwtHeader test_rt) doc secret \<noteq> []"
    unfolding t using sg by simp
  have he: "\<not> isWhiteSpace (hd (signedToken test_rt (jwtHeader test_rt) doc secret))"
    by (simp add: h isWhiteSpace_def)
  have le: "\<not> isWhiteSpace (last (signedToken test_rt (jwtHeader test_rt) doc secret))"
    using sg l by simp
  show ?thesis
    using n he le by (rule trim_id)
qed

lemma test_bearer_token:
  "trim (slice1 (''Bearer '' @ signedToken test_rt (jwtHeader test_rt) doc secret) (length ''bearer '')) =
     signedToken test_rt (jwtHeader test_rt) doc secret"
  by (simp add: slice1_def test_token_trim)

lemma test_token_not_Nil: "signedToken test_rt h doc secret \<noteq> []"
  by (simp add: signedToken_def)



lemma test_env_secret:
  "getSigningSecret test_env = ''test-secret''"
  "getSigningSecret (test_env\<lparr>clock := t\<rparr>) = ''test-secret''"
  "clock test_env = test_now" "clock (test_env\<lparr>clock := t\<rparr>) = t"
  by (simp_all add: getSigningSecret_def test_env_def)

lemma test_verify_90:
  "verifySessionToken test_rt test_env
     (signedToken test_rt (jwtHeader test_rt) (test_payload 1704067200 1704067290) ''test-secret'')
     None None None = Inr (test_payload 1704067200 1704067290)"
  "verifySessionToken test_rt (test_env\<lparr>clock := 1704067290000\<rparr>)
     (signedToken test_rt (jwtHeader test_rt) (test_payload 1704067200 1704067290) ''test-secret'')
     None None None = Inl (TokenExpiredError ''Session token expired'')"
  by (simp_all add: test_verify_signedToken_default test_jwtHeader_no_dot test_documents_parse
        test_env_secret assertValidPayload_def test_payload_props truthy_simps
        isSessionTokenExpired_def toNumber_def mulDouble_def test_now_def)

lemma test_verify_far:
  "verifySessionToken test_rt test_env
     (signedToken test_rt (jwtHeader test_rt) (test_payload 1704067200 10000000000000) ''test-secret'')
     None None None = Inr (test_payload 1704067200 10000000000000)"
  by (simp add: test_verify_signedToken_default test_jwtHeader_no_dot test_documents_parse
        test_env_secret assertValidPayload_def test_payload_props truthy_simps
        isSessionTokenExpired_def toNumber_def mulDouble_def test_doubles test_now_def)

lemma test_verify_plain:
  "verifySessionToken test_rt test_env ''abc'' None None None =
     Inl (TokenInvalidError ''Token format is invalid'')"
  "verifySessionToken failing_rt test_env ''a.b.c'' None None None = Inl (OtherError ''Error'')"
  by (simp_all add: verifySessionToken_def failing_rt_def)

lemma test_verify_scope5:
  "verifySessionToken test_rt test_env
     (signedToken test_rt (jwtHeader test_rt) test_payload_scope5 ''test-secret'')
     None None None = Inr test_payload_scope5"
proof -
  have p: "test_jsonParse (test_jsonStringify test_payload_scope5) = Some test_payload_scope5"
    by (simp add: test_jsonParse_def test_jsonStringify_def test_documents_def test_payload_def
          test_payload_scope5_def headerJson_def)
  have a: "assertValidPayload test_rt test_payload_scope5 test_now None = None"
    by (simp add: assertValidPayload_def test_payload_scope5_def getProp_def truthy_simps
          typeofObject_def isSessionTokenExpired_def toNumber_def mulDouble_def test_now_def)
  show ?thesis
    using test_verify_signedToken_default
            [where h = "jwtHeader test_rt" and doc = test_payload_scope5 and env = test_env
               and secret = "''test-secret''" and req = None]
    by (simp add: test_jwtHeader_no_dot p a test_env_secret)
qed

lemma test_create_payload:
  assumes "0 < ttl"
  shows "createSessionToken_payload test_rt test_env ''practice'' (Some ttl) (Some test_now) =
      Inr \<lparr>payload_jti = ''id-1'', payload_scope = ''practice'',
           payload_iat = 1704067200, payload_exp = roundDouble (1704067200 + min ttl 300)\<rparr>"
  using createSessionToken_payload_ok [of "''practice''" ttl test_rt test_env "Some test_now"] assms
  by (simp add: trim_def isWhiteSpace_def defaultNow_def test_rt_simps test_now_def
        floor_divDouble_numeral addDouble_def)


section \<open>The credential gate\<close>

text \<open>
  C1 (as amended). \<open>verifyAppPassword\<close> compares the candidate with a configured, non-empty
  password by \<open>timingSafeCompare\<close>. On operands of one length \<open>timingSafeCompare\<close> reads
  every position of both, in an order that depends on the length only, and returns whether
  they are equal; it does not stop at the first difference. On operands of different
  lengths it returns \<open>false\<close> at once and reads nothing.
\<close>

theorem timingSafeCompare_reads:
  "(APP_PASSWORD env = Some b \<and> b \<noteq> [] \<longrightarrow>
      verifyAppPassword env (Some a) = timingSafeCompare a b) \<and>
   (length a = length b \<longrightarrow>
      timingSafeCompare a b = (a = b, allReads (length a)) \<and>
      consultsAll a b (snd (timingSafeCompare a b))) \<and>
   (length a \<noteq> length b \<longrightarrow> timingSafeCompare a b = (False, []))"
proof (intro conjI impI)
  assume "APP_PASSWORD env = Some b \<and> b \<noteq> []"
  then show "verifyAppPassword env (Some a) = timingSafeCompare a b"
    by (simp add: verifyAppPassword_def)
next
  assume l: "length a = length b"
  show e: "timingSafeCompare a b = (a = b, allReads (length a))"
    using l by (rule timingSafeCompare_equal_length)
  have "consultsAll a b (allReads (length a))"
    by (rule consultsAll_allReads) (simp_all only: l)
  then show "consultsAll a b (snd (timingSafeCompare a b))"
    by (simp only: e snd_conv)
next
  assume "length a \<noteq> length b"
  then show "timingSafeCompare a b = (False, [])" by (simp add: timingSafeCompare_def)
qed

theorem timingSafeCompare_reads_witness:
  "verifyAppPassword (test_env\<lparr>APP_PASSWORD := Some ''abc''\<rparr>) (Some ''xbc'') = (False, allReads 3) \<and>
   verifyAppPassword (test_env\<lparr>APP_PASSWORD := Some ''abc''\<rparr>) (Some ''abx'') = (False, allReads 3) \<and>
   verifyAppPassword (test_env\<lparr>APP_PASSWORD := Some ''abc''\<rparr>) (Some ''abc'') = (True, allReads 3) \<and>
   verifyAppPassword (test_env\<lparr>APP_PASSWORD := Some ''abc''\<rparr>) (Some ''ab'') = (False, [])"
  using timingSafeCompare_reads [of "test_env\<lparr>APP_PASSWORD := Some ''abc''\<rparr>" "''abc''" "''xbc''"]
        timingSafeCompare_reads [of "test_env\<lparr>APP_PASSWORD := Some ''abc''\<rparr>" "''abc''" "''abx''"]
        timingSafeCompare_reads [of "test_env\<lparr>APP_PASSWORD := Some ''abc''\<rparr>" "''abc''" "''abc''"]
        timingSafeCompare_reads [of "test_env\<lparr>APP_PASSWORD := Some ''abc''\<rparr>" "''abc''" "''ab''"]
  by (simp add: numeral_3_eq_3)

text \<open>C1 as stated fails: with a candidate shorter than the configured secret, no byte of
  either operand is read.\<close>

theorem verifyAppPassword_length_mismatch_counterexample:
  "verifyAppPassword (test_env\<lparr>APP_PASSWORD := Some ''abc''\<rparr>) (Some ''ab'') = (False, []) \<and>
   \<not> consultsAll ''ab'' ''abc''
       (snd (verifyAppPassword (test_env\<lparr>APP_PASSWORD := Some ''abc''\<rparr>) (Some ''ab'')))"
  by (simp add: verifyAppPassword_def timingSafeCompare_def consultsAll_def test_env_def)




section \<open>The session token engine\<close>

text \<open>
  C2 (as amended). For every scope that is not empty after trimming, every \<open>ttlSeconds\<close>
  in [1, 300] and every instant \<open>now\<close> for which the \<open>exp\<close> of the payload is not 0 and
  \<open>exp * 1000\<close> is a date, on a runtime that carries the payload through its encodings and
  signs it: \<open>createSessionToken\<close> returns a token, and \<open>verifySessionToken\<close> on that token
  at the same instant with the same secret returns the payload, with the given scope,
  \<open>iat = floor (now / 1000)\<close> and \<open>exp\<close> the double \<open>iat + ttlSeconds\<close>: for an integer
  \<open>ttlSeconds\<close>, \<open>exp = floor (now / 1000) + ttlSeconds\<close>.
\<close>

theorem createSessionToken_roundtrip:
  assumes "trim sc \<noteq> []" and "1 \<le> ttl" and "ttl \<le> 300"
    and "P = \<lparr>payload_jti = randomUUID rt, payload_scope = sc,
              payload_iat = of_int \<lfloor>divDouble (of_int now) 1000\<rfloor>,
              payload_exp = addDouble (of_int \<lfloor>divDouble (of_int now) 1000\<rfloor>) ttl\<rparr>"
    and "payload_exp P \<noteq> 0"
    and "\<bar>mulDouble (payload_exp P) 1000\<bar> \<le> 8640000000000000"
    and "CHR ''.'' \<notin> set (jwtHeader rt)"
    and "transports rt (payloadJson P)"
    and "signs rt secret (jwtHeader rt @ ''.'' @ base64urlEncode rt (jsonStringify rt (payloadJson P)))"
  shows "\<exists>r. createSessionToken rt env sc (Some ttl) (Some now) (Some secret) = Inr r \<and>
             verifySessionToken rt env (token r) (Some now) None (Some secret) = Inr (payloadJson P) \<and>
             getProp (payloadJson P) ''scope'' = Some (JStr sc) \<and>
             getProp (payloadJson P) ''exp'' =
               Some (JNum (addDouble (of_int \<lfloor>(of_int now :: rat) / 1000\<rfloor>) ttl)) \<and>
             (ttl = of_int k \<longrightarrow>
                getProp (payloadJson P) ''exp'' = Some (JNum (of_int \<lfloor>(of_int now :: rat) / 1000\<rfloor> + ttl)))"
proof -
  let ?p = "base64urlEncode rt (jsonStringify rt (payloadJson P))"
  let ?tok = "signedToken rt (jwtHeader rt) (payloadJson P) secret"
  have sc: "sc \<noteq> []" using assms(1) trim_Nil by auto
  have t: "0 < ttl" "min ttl 300 = ttl" using assms(2,3) by simp_all
  have pl: "createSessionToken_payload rt env sc (Some ttl) (Some now) = Inr P"
    using assms(1,4) t createSessionToken_payload_ok [of sc ttl rt env "Some now"]
    by (simp add: defaultNow_def)
  have cr: "createSessionToken rt env sc (Some ttl) (Some now) (Some secret) =
      Inr \<lparr>token = ?tok, scope = sc,
           expiresAt = isoFormat rt (if 0 \<le> mulDouble (payload_exp P) 1000
                                     then \<lfloor>mulDouble (payload_exp P) 1000\<rfloor>
                                     else \<lceil>mulDouble (payload_exp P) 1000\<rceil>)\<rparr>"
    using createSessionToken_ok [OF pl, of "Some secret"] assms(6,9) by (simp add: defaultSecret_def)
  have "\<bar>mulDouble (addDouble (of_int \<lfloor>divDouble (of_int now) 1000\<rfloor>) ttl) 1000\<bar> \<le> 8640000000000000"
    using assms(6) by (simp add: assms(4))
  with t(1) assms(3) have nb: "\<bar>now\<bar> < 8796093022208000" by (rule date_now_bound)
  have fl: "\<lfloor>divDouble (of_int now) 1000\<rfloor> = now div 1000"
    using nb by (rule floor_divDouble_seconds)
  have fe: "\<lfloor>(of_int now :: rat) / 1000\<rfloor> = now div 1000"
    using floor_divide_of_int_eq [of now 1000, where ?'a = rat] by simp
  have qb: "\<bar>now div 1000\<bar> \<le> 8796093022208" using nb by (rule seconds_bound)
  have pe: "payload_exp P = addDouble (of_int (now div 1000)) ttl" by (simp add: assms(4) fl)
  obtain sg where sg: "hmacSha256 rt secret (jwtHeader rt @ ''.'' @ ?p) = Some sg"
    and nd: "CHR ''.'' \<notin> set sg"
    using assms(9) by (auto simp add: signs_def split: option.splits)
  have tok: "?tok = jwtHeader rt @ [CHR ''.''] @ ?p @ [CHR ''.''] @ sg"
    using sg by (simp add: signedToken_def)
  have pd: "CHR ''.'' \<notin> set ?p" using assms(8) by (simp add: transports_def)
  have sp: "split_on CHR ''.'' ?tok = [jwtHeader rt, ?p, sg]"
    unfolding tok using assms(7) pd nd by (rule split_on_three)
  obtain decoded where dec: "base64urlDecode rt ?p = Some decoded"
    and par: "jsonParse rt decoded = Some (payloadJson P)"
    using assms(8) by (auto simp add: transports_def split: option.splits)
  have ex: "getProp (payloadJson P) ''exp'' = Some (JNum (payload_exp P))"
    and scp: "getProp (payloadJson P) ''scope'' = Some (JStr (payload_scope P))"
    by (simp_all add: getProp_def payloadJson_def)
  have "of_int (now div 1000) + 1 \<le> payload_exp P"
    using addDouble_seconds(3) [OF qb t(1) assms(3) assms(2)] by (simp only: pe)
  with nb have "of_int now < mulDouble (payload_exp P) 1000" by (rule mulDouble_after_now)
  then have ne: "\<not> isSessionTokenExpired rt (payloadJson P) now"
    by (simp add: isSessionTokenExpired_def toNumber_def ex)
  have psc: "payload_scope P = sc" by (simp add: assms(4))
  have te: "truthy (getProp (payloadJson P) ''exp'')"
    using assms(5) by (simp add: ex truthy_simps)
  have ts: "truthy (getProp (payloadJson P) ''scope'')"
    using sc by (simp add: scp psc truthy_simps)
  have av: "assertValidPayload rt (payloadJson P) now None = None"
    using te ts ne by (rule assertValidPayload_ok)
  have "verifySessionToken rt env ?tok (Some now) None (Some secret) =
          verifySessionToken_payload rt ?p now None"
    using verifySessionToken_signed [OF sp, of rt env "Some secret" "Some now" None] sg
    by (simp add: defaultSecret_def defaultNow_def)
  also have "\<dots> = Inr (payloadJson P)"
    using verifySessionToken_payload_parsed [OF dec par, of now None] av by simp
  finally have vf: "verifySessionToken rt env ?tok (Some now) None (Some secret) = Inr (payloadJson P)" .
  have g1: "getProp (payloadJson P) ''exp'' =
      Some (JNum (addDouble (of_int \<lfloor>(of_int now :: rat) / 1000\<rfloor>) ttl))"
    by (simp only: ex pe fe)
  have g2: "ttl = of_int k \<longrightarrow>
      getProp (payloadJson P) ''exp'' = Some (JNum (of_int \<lfloor>(of_int now :: rat) / 1000\<rfloor> + ttl))"
  proof
    assume k: "ttl = of_int k"
    then have "\<bar>k\<bar> \<le> 300" using assms(2,3) by simp
    with qb have "addDouble (of_int (now div 1000)) (of_int k) = of_int (now div 1000 + k)"
      by (rule addDouble_int)
    then show "getProp (payloadJson P) ''exp'' = Some (JNum (of_int \<lfloor>(of_int now :: rat) / 1000\<rfloor> + ttl))"
      by (simp add: ex pe fe k)
  qed
  show ?thesis
    using cr vf scp psc g1 g2 by simp
qed

theorem createSessionToken_roundtrip_witness:
  "\<exists>r. createSessionToken test_rt test_env ''practice'' (Some 90) (Some test_now) (Some ''test-secret'') = Inr r \<and>
       verifySessionToken test_rt test_env (token r) (Some test_now) None (Some ''test-secret'') =
         Inr (test_payload 1704067200 1704067290) \<and>
       getProp (test_payload 1704067200 1704067290) ''scope'' = Some (JStr ''practice'') \<and>
       getProp (test_payload 1704067200 1704067290) ''exp'' = Some (JNum 1704067290)"
  using createSessionToken_roundtrip
          [where rt = test_rt and env = test_env and sc = "''practice''" and ttl = 90
             and now = test_now and secret = "''test-secret''" and k = 90
             and P = "\<lparr>payload_jti = ''id-1'', payload_scope = ''practice'',
                        payload_iat = 1704067200, payload_exp = 1704067290\<rparr>"]
  by (simp add: trim_def isWhiteSpace_def test_rt_simps test_now_def test_payloadJson
        floor_divDouble_numeral addDouble_def mulDouble_def
        test_jwtHeader_no_dot test_transports test_documents_parse test_signs)

text \<open>C2 as stated fails: a scope of one space is not empty and \<open>createSessionToken\<close>
  rejects it; and the token created one minute before the epoch with a lifetime of 60
  seconds, verified at that instant, is rejected.\<close>

theorem createSessionToken_roundtrip_counterexample:
  "createSessionToken test_rt test_env '' '' (Some 60) (Some test_now) (Some ''test-secret'') =
     Inl (TokenInvalidError ''Scope is required'') \<and>
   createSessionToken test_rt test_env ''practice'' (Some 60) (Some (- 60000)) (Some ''test-secret'') =
     Inr \<lparr>token = signedToken test_rt (jwtHeader test_rt) (test_payload (- 60) 0) ''test-secret'',
          scope = ''practice'', expiresAt = ''1970-01-01T00:00:00.000Z''\<rparr> \<and>
   verifySessionToken test_rt test_env
     (signedToken test_rt (jwtHeader test_rt) (test_payload (- 60) 0) ''test-secret'')
     (Some (- 60000)) None (Some ''test-secret'') =
     Inl (TokenInvalidError ''Token payload missing fields'')"
proof (intro conjI)
  show "createSessionToken test_rt test_env '' '' (Some 60) (Some test_now) (Some ''test-secret'') =
     Inl (TokenInvalidError ''Scope is required'')"
    by (simp add: createSessionToken_def createSessionToken_payload_def trim_def isWhiteSpace_def)
next
  have pl: "createSessionToken_payload test_rt test_env ''practice'' (Some 60) (Some (- 60000)) =
      Inr \<lparr>payload_jti = ''id-1'', payload_scope = ''practice'', payload_iat = - 60, payload_exp = 0\<rparr>"
    using createSessionToken_payload_ok [of "''practice''" 60 test_rt test_env "Some (- 60000)"]
    by (simp add: trim_def isWhiteSpace_def defaultNow_def test_rt_simps floor_divDouble_numeral
          addDouble_def)
  show "createSessionToken test_rt test_env ''practice'' (Some 60) (Some (- 60000)) (Some ''test-secret'') =
     Inr \<lparr>token = signedToken test_rt (jwtHeader test_rt) (test_payload (- 60) 0) ''test-secret'',
          scope = ''practice'', expiresAt = ''1970-01-01T00:00:00.000Z''\<rparr>"
    using createSessionToken_ok [OF pl, of "Some ''test-secret''"]
    by (simp add: test_signs test_payloadJson defaultSecret_def test_rt_simps test_isoFormat_def
          mulDouble_def)
next
  show "verifySessionToken test_rt test_env
     (signedToken test_rt (jwtHeader test_rt) (test_payload (- 60) 0) ''test-secret'')
     (Some (- 60000)) None (Some ''test-secret'') =
     Inl (TokenInvalidError ''Token payload missing fields'')"
    by (simp add: test_verify_signedToken test_jwtHeader_no_dot test_documents_parse
          assertValidPayload_def test_payload_props truthy_simps)
qed

text \<open>
  C3 (as amended). For a validly signed token whose payload is an object with a number
  \<open>exp\<close> other than 0 and a truthy \<open>scope\<close>, \<open>verifySessionToken\<close> fails with the
  \<open>TokenExpiredError\<close> exactly when the double \<open>exp * 1000\<close> is at most \<open>now\<close>. It does
  whenever the exact product is at most \<open>now\<close>, a time value; and for an integer
  \<open>exp = T\<close> with \<open>T * 1000\<close> a time value it does at \<open>now = T * 1000\<close> and does not at
  \<open>now = T * 1000 - 1\<close>.
\<close>

theorem verifySessionToken_expiry_boundary:
  assumes "split_on CHR ''.'' tok = [h, p, s]"
    and "hmacSha256 rt (defaultSecret env secret_arg) (h @ ''.'' @ p) = Some s"
    and "base64urlDecode rt p = Some decoded" and "jsonParse rt decoded = Some payload"
    and "getProp payload ''exp'' = Some (JNum e)" and "e \<noteq> 0"
    and "truthy (getProp payload ''scope'')"
  shows "((\<exists>m. verifySessionToken rt env tok (Some now) req secret_arg = Inl (TokenExpiredError m))
            \<longleftrightarrow> mulDouble e 1000 \<le> of_int now) \<and>
         (mulDouble e 1000 \<le> of_int now \<longrightarrow>
            verifySessionToken rt env tok (Some now) req secret_arg =
              Inl (TokenExpiredError ''Session token expired'')) \<and>
         (e * 1000 \<le> of_int now \<and> \<bar>now\<bar> \<le> 8640000000000000 \<longrightarrow>
            verifySessionToken rt env tok (Some now) req secret_arg =
              Inl (TokenExpiredError ''Session token expired'')) \<and>
         (e = of_int T \<and> \<bar>T * 1000\<bar> \<le> 8640000000000000 \<longrightarrow>
            verifySessionToken rt env tok (Some (T * 1000)) req secret_arg =
              Inl (TokenExpiredError ''Session token expired'') \<and>
            (\<forall>m. verifySessionToken rt env tok (Some (T * 1000 - 1)) req secret_arg \<noteq>
              Inl (TokenExpiredError m)))"
proof -
  have v: "\<And>n. verifySessionToken rt env tok (Some n) req secret_arg =
      (case assertValidPayload rt payload n req of Some x \<Rightarrow> Inl x | None \<Rightarrow> Inr payload)"
    using assms(1-4)
    by (simp add: verifySessionToken_signed verifySessionToken_payload_parsed defaultNow_def)
  have ex: "\<And>n. isSessionTokenExpired rt payload n \<longleftrightarrow> mulDouble e 1000 \<le> of_int n"
    using assms(5) by (simp add: isSessionTokenExpired_def toNumber_def)
  have t: "truthy (getProp payload ''exp'')" using assms(5,6) by (simp add: truthy_simps)
  have yes: "\<And>n. mulDouble e 1000 \<le> of_int n \<Longrightarrow>
      verifySessionToken rt env tok (Some n) req secret_arg = Inl (TokenExpiredError ''Session token expired'')"
    using t assms(7) by (simp add: v ex assertValidPayload_expired)
  have no: "\<And>n m. \<not> mulDouble e 1000 \<le> of_int n \<Longrightarrow>
      verifySessionToken rt env tok (Some n) req secret_arg \<noteq> Inl (TokenExpiredError m)"
  proof -
    fix n m
    assume "\<not> mulDouble e 1000 \<le> of_int n"
    then have "assertValidPayload rt payload n req \<noteq> Some (TokenExpiredError m)"
      by (simp add: ex assertValidPayload_not_expired)
    then show "verifySessionToken rt env tok (Some n) req secret_arg \<noteq> Inl (TokenExpiredError m)"
      by (auto simp add: v split: option.splits)
  qed
  show ?thesis
  proof (intro conjI impI allI)
    show "(\<exists>m. verifySessionToken rt env tok (Some now) req secret_arg = Inl (TokenExpiredError m))
            \<longleftrightarrow> mulDouble e 1000 \<le> of_int now"
      using yes no by blast
  next
    assume "mulDouble e 1000 \<le> of_int now"
    then show "verifySessionToken rt env tok (Some now) req secret_arg =
              Inl (TokenExpiredError ''Session token expired'')" by (rule yes)
  next
    assume a: "e * 1000 \<le> of_int now \<and> \<bar>now\<bar> \<le> 8640000000000000"
    then have "\<bar>now\<bar> \<le> 2 ^ 53" by simp
    with a have "mulDouble e 1000 \<le> of_int now"
      unfolding mulDouble_def by (intro roundDouble_le_int) simp_all
    then show "verifySessionToken rt env tok (Some now) req secret_arg =
              Inl (TokenExpiredError ''Session token expired'')" by (rule yes)
  next
    assume "e = of_int T \<and> \<bar>T * 1000\<bar> \<le> 8640000000000000"
    then have "mulDouble e 1000 = of_int (T * 1000)"
      using mulDouble_int [of T] by simp
    then show "verifySessionToken rt env tok (Some (T * 1000)) req secret_arg =
              Inl (TokenExpiredError ''Session token expired'')"
      by (intro yes) simp
  next
    fix m
    assume "e = of_int T \<and> \<bar>T * 1000\<bar> \<le> 8640000000000000"
    then have "mulDouble e 1000 = of_int (T * 1000)"
      using mulDouble_int [of T] by simp
    then have "\<not> mulDouble e 1000 \<le> of_int (T * 1000 - 1)" by simp
    then show "verifySessionToken rt env tok (Some (T * 1000 - 1)) req secret_arg \<noteq>
              Inl (TokenExpiredError m)" by (rule no)
  qed
qed

theorem verifySessionToken_expiry_boundary_witness:
  "verifySessionToken test_rt test_env
     (signedToken test_rt (jwtHeader test_rt) (test_payload 1704067200 1704067290) ''test-secret'')
     (Some (1704067290 * 1000)) None (Some ''test-secret'') =
       Inl (TokenExpiredError ''Session token expired'') \<and>
   (\<forall>m. verifySessionToken test_rt test_env
     (signedToken test_rt (jwtHeader test_rt) (test_payload 1704067200 1704067290) ''test-secret'')
     (Some (1704067290 * 1000 - 1)) None (Some ''test-secret'') \<noteq> Inl (TokenExpiredError m))"
  using verifySessionToken_expiry_boundary
          [where rt = test_rt and env = test_env and secret_arg = "Some ''test-secret''"
             and req = None and T = 1704067290 and e = 1704067290 and now = 0
             and tok = "signedToken test_rt (jwtHeader test_rt) (test_payload 1704067200 1704067290) ''test-secret''"
             and h = "jwtHeader test_rt"
             and p = "test_base64urlEncode (test_jsonStringify (test_payload 1704067200 1704067290))"
             and s = "test_base64urlEncode (''test-secret'' @ ''/'' @ jwtHeader test_rt @ ''.'' @
                        test_base64urlEncode (test_jsonStringify (test_payload 1704067200 1704067290)))"
             and decoded = "test_jsonStringify (test_payload 1704067200 1704067290)"
             and payload = "test_payload 1704067200 1704067290"]
  by (simp add: test_signedToken_split test_jwtHeader_no_dot defaultSecret_def
        test_rt_simps test_hmacSha256_def test_base64url_roundtrip
        test_documents_parse test_payload_props truthy_simps)

text \<open>C3 as stated fails: a validly signed payload that has both fields, with \<open>exp = 0\<close>,
  verified at the epoch (\<open>0 * 1000 \<le> 0\<close>), fails with a \<open>TokenInvalidError\<close>. And the
  product is rounded: with \<open>exp\<close> the double \<open>1704067200.002\<close>, which is above that decimal,
  the exact \<open>exp * 1000\<close> is above \<open>now = 1704067200002\<close>, and the token is expired.\<close>

theorem verifySessionToken_expiry_boundary_counterexample:
  "getProp (test_payload (- 60) 0) ''exp'' = Some (JNum 0) \<and>
   getProp (test_payload (- 60) 0) ''scope'' = Some (JStr ''practice'') \<and>
   (0 :: rat) * 1000 \<le> of_int 0 \<and>
   verifySessionToken test_rt test_env
     (signedToken test_rt (jwtHeader test_rt) (test_payload (- 60) 0) ''test-secret'')
     (Some 0) None (Some ''test-secret'') = Inl (TokenInvalidError ''Token payload missing fields'') \<and>
   getProp (test_payload 1704067200 (7147375873237189 / 4194304)) ''exp'' =
     Some (JNum (7147375873237189 / 4194304)) \<and>
   \<not> (7147375873237189 / 4194304 :: rat) * 1000 \<le> of_int 1704067200002 \<and>
   verifySessionToken test_rt test_env
     (signedToken test_rt (jwtHeader test_rt) (test_payload 1704067200 (7147375873237189 / 4194304))
        ''test-secret'')
     (Some 1704067200002) None (Some ''test-secret'') = Inl (TokenExpiredError ''Session token expired'')"
proof -
  have z: "verifySessionToken test_rt test_env
     (signedToken test_rt (jwtHeader test_rt) (test_payload (- 60) 0) ''test-secret'')
     (Some 0) None (Some ''test-secret'') = Inl (TokenInvalidError ''Token payload missing fields'')"
    by (simp add: test_verify_signedToken test_jwtHeader_no_dot test_documents_parse
          assertValidPayload_def test_payload_props truthy_simps)
  have x: "isSessionTokenExpired test_rt (test_payload 1704067200 (7147375873237189 / 4194304))
             1704067200002"
    by (simp only: isSessionTokenExpired_def toNumber_def test_payload_props option.case json.case
          mulDouble_def test_doubles)
  have r: "verifySessionToken test_rt test_env
     (signedToken test_rt (jwtHeader test_rt) (test_payload 1704067200 (7147375873237189 / 4194304))
        ''test-secret'')
     (Some 1704067200002) None (Some ''test-secret'') = Inl (TokenExpiredError ''Session token expired'')"
    using x
    by (simp add: test_verify_signedToken test_jwtHeader_no_dot test_documents_parse
          assertValidPayload_def test_payload_props truthy_simps defaultNow_def)
  show ?thesis
    using z r by (simp add: test_payload_props)
qed




text \<open>
  C5 (as amended). \<open>createSessionToken\<close> fails with a \<open>TokenInvalidError\<close> for every
  supplied \<open>ttlSeconds \<le> 0\<close>; without \<open>ttlSeconds\<close> it does what it does for 60; and every
  positive \<open>ttlSeconds\<close>, an integer or not, passes the check: with a scope that is not
  blank the payload has for \<open>exp\<close> the double \<open>iat + min ttlSeconds 300\<close>.
\<close>

theorem createSessionToken_ttl:
  "(ttl \<le> 0 \<longrightarrow>
      (\<exists>m. createSessionToken rt env sc (Some ttl) now_arg secret_arg = Inl (TokenInvalidError m))) \<and>
   createSessionToken rt env sc None now_arg secret_arg =
     createSessionToken rt env sc (Some 60) now_arg secret_arg \<and>
   (trim sc \<noteq> [] \<longrightarrow>
      (\<exists>P. createSessionToken_payload rt env sc None now_arg = Inr P \<and>
           payload_exp P = addDouble (payload_iat P) 60)) \<and>
   (trim sc \<noteq> [] \<and> 0 < ttl \<longrightarrow>
      (\<exists>P. createSessionToken_payload rt env sc (Some ttl) now_arg = Inr P \<and>
           payload_exp P = addDouble (payload_iat P) (min ttl 300)))"
proof (intro conjI impI)
  assume "ttl \<le> 0"
  then show "\<exists>m. createSessionToken rt env sc (Some ttl) now_arg secret_arg = Inl (TokenInvalidError m)"
    by (simp add: createSessionToken_def createSessionToken_payload_def)
next
  show "createSessionToken rt env sc None now_arg secret_arg =
     createSessionToken rt env sc (Some 60) now_arg secret_arg"
    by (simp add: createSessionToken_def createSessionToken_payload_default)
next
  assume "trim sc \<noteq> []"
  then show "\<exists>P. createSessionToken_payload rt env sc None now_arg = Inr P \<and>
           payload_exp P = addDouble (payload_iat P) 60"
    using createSessionToken_payload_ok [of sc 60 rt env now_arg]
    by (simp add: createSessionToken_payload_default)
next
  assume "trim sc \<noteq> [] \<and> 0 < ttl"
  then show "\<exists>P. createSessionToken_payload rt env sc (Some ttl) now_arg = Inr P \<and>
           payload_exp P = addDouble (payload_iat P) (min ttl 300)"
    using createSessionToken_payload_ok [of sc ttl rt env now_arg] by simp
qed

theorem createSessionToken_ttl_witness:
  "(\<exists>m. createSessionToken test_rt test_env ''practice'' (Some 0) (Some test_now) (Some ''test-secret'') =
          Inl (TokenInvalidError m)) \<and>
   (\<exists>m. createSessionToken test_rt test_env ''practice'' (Some (- 5)) (Some test_now) (Some ''test-secret'') =
          Inl (TokenInvalidError m)) \<and>
   (\<exists>P. createSessionToken_payload test_rt test_env ''practice'' None (Some test_now) = Inr P \<and>
        payload_exp P = addDouble (payload_iat P) 60) \<and>
   (\<exists>P. createSessionToken_payload test_rt test_env ''practice'' (Some (3 / 2)) (Some test_now) = Inr P \<and>
        payload_exp P = addDouble (payload_iat P) (3 / 2))"
  using createSessionToken_ttl
          [where rt = test_rt and env = test_env and sc = "''practice''" and ttl = 0
             and now_arg = "Some test_now" and secret_arg = "Some ''test-secret''"]
        createSessionToken_ttl
          [where rt = test_rt and env = test_env and sc = "''practice''" and ttl = "- 5"
             and now_arg = "Some test_now" and secret_arg = "Some ''test-secret''"]
        createSessionToken_ttl
          [where rt = test_rt and env = test_env and sc = "''practice''" and ttl = "3 / 2"
             and now_arg = "Some test_now" and secret_arg = "Some ''test-secret''"]
  by (simp add: trim_def isWhiteSpace_def)

text \<open>C5 as stated fails: \<open>ttlSeconds = 1.5\<close> is no positive integer, and
  \<open>createSessionToken\<close> returns a token for it, expiring 1.5 seconds after issue.\<close>

theorem createSessionToken_fractional_ttl_counterexample:
  "createSessionToken test_rt test_env ''practice'' (Some (3 / 2)) (Some test_now) (Some ''test-secret'') =
     Inr \<lparr>token = signedToken test_rt (jwtHeader test_rt)
                    (test_payload 1704067200 (3408134403 / 2)) ''test-secret'',
          scope = ''practice'', expiresAt = ''2024-01-01T00:00:01.500Z''\<rparr>"
proof -
  have pl: "createSessionToken_payload test_rt test_env ''practice'' (Some (3 / 2)) (Some test_now) =
      Inr \<lparr>payload_jti = ''id-1'', payload_scope = ''practice'',
           payload_iat = 1704067200, payload_exp = 3408134403 / 2\<rparr>"
    using test_create_payload [of "3 / 2"] by (simp add: test_doubles)
  have ms: "mulDouble (3408134403 / 2) 1000 = 1704067201500" by (simp add: mulDouble_def)
  show ?thesis
    using createSessionToken_ok [OF pl, of "Some ''test-secret''"]
    by (simp add: test_signs test_payloadJson defaultSecret_def test_rt_simps test_isoFormat_def ms)
qed

text \<open>
  C6 (as amended). \<open>verifySessionToken\<close> fails with a \<open>TokenInvalidError\<close> on the empty
  token, on a token that does not split into exactly three segments, and on a token
  whose third segment differs from the recomputed signature; so it does on an empty
  third segment when the digest is not empty, and on an empty second segment when the
  parser rejects what the decoder makes of it. That a segment is empty is not itself
  tested.
\<close>

theorem verifySessionToken_rejects:
  "(tok = [] \<or> length (split_on CHR ''.'' tok) \<noteq> 3 \<longrightarrow>
      (\<exists>m. verifySessionToken rt env tok now_arg req secret_arg = Inl (TokenInvalidError m))) \<and>
   (split_on CHR ''.'' tok = [h, p, s] \<and>
    hmacSha256 rt (defaultSecret env secret_arg) (h @ ''.'' @ p) = Some e \<and> s \<noteq> e \<longrightarrow>
      verifySessionToken rt env tok now_arg req secret_arg =
        Inl (TokenInvalidError ''Token signature mismatch'')) \<and>
   (split_on CHR ''.'' tok = [h, [], s] \<and>
    hmacSha256 rt (defaultSecret env secret_arg) (h @ ''.'') = Some s \<and>
    (case base64urlDecode rt [] of None \<Rightarrow> True | Some decoded \<Rightarrow> jsonParse rt decoded = None) \<longrightarrow>
      verifySessionToken rt env tok now_arg req secret_arg =
        Inl (TokenInvalidError ''Token payload could not be parsed''))"
proof (intro conjI impI)
  assume "tok = [] \<or> length (split_on CHR ''.'' tok) \<noteq> 3"
  then show "\<exists>m. verifySessionToken rt env tok now_arg req secret_arg = Inl (TokenInvalidError m)"
    using verifySessionToken_empty verifySessionToken_format by (cases "tok = []") blast+
next
  assume "split_on CHR ''.'' tok = [h, p, s] \<and>
    hmacSha256 rt (defaultSecret env secret_arg) (h @ ''.'' @ p) = Some e \<and> s \<noteq> e"
  then show "verifySessionToken rt env tok now_arg req secret_arg =
        Inl (TokenInvalidError ''Token signature mismatch'')"
    by (simp add: verifySessionToken_segments)
next
  assume a: "split_on CHR ''.'' tok = [h, [], s] \<and>
    hmacSha256 rt (defaultSecret env secret_arg) (h @ ''.'') = Some s \<and>
    (case base64urlDecode rt [] of None \<Rightarrow> True | Some decoded \<Rightarrow> jsonParse rt decoded = None)"
  then have "verifySessionToken rt env tok now_arg req secret_arg =
               verifySessionToken_payload rt [] (defaultNow env now_arg) req"
    by (simp add: verifySessionToken_segments)
  also have "\<dots> = Inl (TokenInvalidError ''Token payload could not be parsed'')"
    using a by (auto simp add: verifySessionToken_payload_def split: option.splits)
  finally show "verifySessionToken rt env tok now_arg req secret_arg =
        Inl (TokenInvalidError ''Token payload could not be parsed'')" .
qed

theorem verifySessionToken_rejects_witness:
  "(\<exists>m. verifySessionToken test_rt test_env [] None None (Some ''k'') = Inl (TokenInvalidError m)) \<and>
   (\<exists>m. verifySessionToken test_rt test_env ''aA.bB'' None None (Some ''k'') = Inl (TokenInvalidError m)) \<and>
   verifySessionToken test_rt test_env ''aA.bB.forged'' None None (Some ''k'') =
     Inl (TokenInvalidError ''Token signature mismatch'') \<and>
   verifySessionToken test_rt test_env ''aA.bB.'' None None (Some ''k'') =
     Inl (TokenInvalidError ''Token signature mismatch'') \<and>
   verifySessionToken test_rt test_env ''aA..ay9hQS4'' None None (Some ''k'') =
     Inl (TokenInvalidError ''Token payload could not be parsed'')"
  using verifySessionToken_rejects [where tok = "[]" and rt = test_rt and env = test_env
          and secret_arg = "Some ''k''" and now_arg = None and req = None]
        verifySessionToken_rejects [where tok = "''aA.bB''" and rt = test_rt and env = test_env
          and secret_arg = "Some ''k''" and now_arg = None and req = None]
        verifySessionToken_rejects [where tok = "''aA.bB.forged''" and rt = test_rt and env = test_env
          and secret_arg = "Some ''k''" and now_arg = None and req = None
          and h = "''aA''" and p = "''bB''" and s = "''forged''" and e = "''ay9hQS5iQg''"]
        verifySessionToken_rejects [where tok = "''aA.bB.''" and rt = test_rt and env = test_env
          and secret_arg = "Some ''k''" and now_arg = None and req = None
          and h = "''aA''" and p = "''bB''" and s = "[]" and e = "''ay9hQS5iQg''"]
        verifySessionToken_rejects [where tok = "''aA..ay9hQS4''" and rt = test_rt and env = test_env
          and secret_arg = "Some ''k''" and now_arg = None and req = None
          and h = "''aA''" and s = "''ay9hQS4''"]
  by (simp add: defaultSecret_def test_rt_simps test_digest_k test_digest_k_dot test_decode_empty)

text \<open>C6 as stated fails: a token whose header segment is empty, signed over
  \<open>.payload\<close>, is accepted.\<close>

theorem verifySessionToken_empty_header_counterexample:
  "hd (split_on CHR ''.'' (signedToken test_rt [] (test_payload 1704067200 1704067290) ''test-secret'')) = [] \<and>
   verifySessionToken test_rt test_env
     (signedToken test_rt [] (test_payload 1704067200 1704067290) ''test-secret'')
     (Some test_now) None (Some ''test-secret'') = Inr (test_payload 1704067200 1704067290)"
  by (simp add: test_signedToken_split test_verify_signedToken test_documents_parse
        assertValidPayload_def test_payload_props isSessionTokenExpired_def toNumber_def
        mulDouble_def defaultNow_def test_now_def truthy_simps)

text \<open>
  C7 (as amended). A token that is malformed (empty, not three segments, a payload that cannot be
  decoded or parsed, a payload that is no object or lacks \<open>exp\<close> or \<open>scope\<close>) or whose
  signature does not match fails with a \<open>TokenInvalidError\<close>, whatever the instant of
  verification, so also when its payload is expired; a validly signed token whose payload
  has both fields and is expired fails with the \<open>TokenExpiredError\<close>, whatever scope is
  required, so also when its scope is not permitted.
\<close>

theorem verifySessionToken_precedence:
  "(tok = [] \<or> length (split_on CHR ''.'' tok) \<noteq> 3 \<longrightarrow>
      (\<exists>m. verifySessionToken rt env tok now_arg req secret_arg = Inl (TokenInvalidError m))) \<and>
   (split_on CHR ''.'' tok = [h, p, s] \<and>
    hmacSha256 rt (defaultSecret env secret_arg) (h @ ''.'' @ p) = Some e \<and> s \<noteq> e \<longrightarrow>
      (\<exists>m. verifySessionToken rt env tok now_arg req secret_arg = Inl (TokenInvalidError m))) \<and>
   (split_on CHR ''.'' tok = [h, p, s] \<and>
    hmacSha256 rt (defaultSecret env secret_arg) (h @ ''.'' @ p) = Some s \<and>
    (case base64urlDecode rt p of None \<Rightarrow> True | Some decoded \<Rightarrow> jsonParse rt decoded = None) \<longrightarrow>
      (\<exists>m. verifySessionToken rt env tok now_arg req secret_arg = Inl (TokenInvalidError m))) \<and>
   (split_on CHR ''.'' tok = [h, p, s] \<and>
    hmacSha256 rt (defaultSecret env secret_arg) (h @ ''.'' @ p) = Some s \<and>
    base64urlDecode rt p = Some decoded \<and> jsonParse rt decoded = Some payload \<and>
    (\<not> typeofObject payload \<or> \<not> truthy (Some payload) \<or>
     \<not> truthy (getProp payload ''exp'') \<or> \<not> truthy (getProp payload ''scope'')) \<longrightarrow>
      (\<exists>m. verifySessionToken rt env tok now_arg req secret_arg = Inl (TokenInvalidError m))) \<and>
   (split_on CHR ''.'' tok = [h, p, s] \<and>
    hmacSha256 rt (defaultSecret env secret_arg) (h @ ''.'' @ p) = Some s \<and>
    base64urlDecode rt p = Some decoded \<and> jsonParse rt decoded = Some payload \<and>
    truthy (getProp payload ''exp'') \<and> truthy (getProp payload ''scope'') \<and>
    isSessionTokenExpired rt payload (defaultNow env now_arg) \<longrightarrow>
      verifySessionToken rt env tok now_arg req secret_arg =
        Inl (TokenExpiredError ''Session token expired''))"
proof (intro conjI impI)
  assume "tok = [] \<or> length (split_on CHR ''.'' tok) \<noteq> 3"
  then show "\<exists>m. verifySessionToken rt env tok now_arg req secret_arg = Inl (TokenInvalidError m)"
    using verifySessionToken_empty verifySessionToken_format by (cases "tok = []") blast+
next
  assume "split_on CHR ''.'' tok = [h, p, s] \<and>
    hmacSha256 rt (defaultSecret env secret_arg) (h @ ''.'' @ p) = Some e \<and> s \<noteq> e"
  then show "\<exists>m. verifySessionToken rt env tok now_arg req secret_arg = Inl (TokenInvalidError m)"
    by (simp add: verifySessionToken_segments)
next
  assume a: "split_on CHR ''.'' tok = [h, p, s] \<and>
    hmacSha256 rt (defaultSecret env secret_arg) (h @ ''.'' @ p) = Some s \<and>
    (case base64urlDecode rt p of None \<Rightarrow> True | Some decoded \<Rightarrow> jsonParse rt decoded = None)"
  then have "verifySessionToken rt env tok now_arg req secret_arg =
               verifySessionToken_payload rt p (defaultNow env now_arg) req"
    by (simp add: verifySessionToken_signed)
  moreover have "\<exists>m. verifySessionToken_payload rt p (defaultNow env now_arg) req = Inl (TokenInvalidError m)"
    using a by (auto simp add: verifySessionToken_payload_def split: option.splits)
  ultimately show "\<exists>m. verifySessionToken rt env tok now_arg req secret_arg = Inl (TokenInvalidError m)"
    by simp
next
  assume a: "split_on CHR ''.'' tok = [h, p, s] \<and>
    hmacSha256 rt (defaultSecret env secret_arg) (h @ ''.'' @ p) = Some s \<and>
    base64urlDecode rt p = Some decoded \<and> jsonParse rt decoded = Some payload \<and>
    (\<not> typeofObject payload \<or> \<not> truthy (Some payload) \<or>
     \<not> truthy (getProp payload ''exp'') \<or> \<not> truthy (getProp payload ''scope''))"
  then have v: "verifySessionToken rt env tok now_arg req secret_arg =
      (case assertValidPayload rt payload (defaultNow env now_arg) req of
         Some e \<Rightarrow> Inl e | None \<Rightarrow> Inr payload)"
    by (simp add: verifySessionToken_signed verifySessionToken_payload_parsed)
  obtain m where "assertValidPayload rt payload (defaultNow env now_arg) req = Some (TokenInvalidError m)"
    using a assertValidPayload_missing by blast
  then show "\<exists>m. verifySessionToken rt env tok now_arg req secret_arg = Inl (TokenInvalidError m)"
    using v by simp
next
  assume a: "split_on CHR ''.'' tok = [h, p, s] \<and>
    hmacSha256 rt (defaultSecret env secret_arg) (h @ ''.'' @ p) = Some s \<and>
    base64urlDecode rt p = Some decoded \<and> jsonParse rt decoded = Some payload \<and>
    truthy (getProp payload ''exp'') \<and> truthy (getProp payload ''scope'') \<and>
    isSessionTokenExpired rt payload (defaultNow env now_arg)"
  then have v: "verifySessionToken rt env tok now_arg req secret_arg =
      (case assertValidPayload rt payload (defaultNow env now_arg) req of
         Some e \<Rightarrow> Inl e | None \<Rightarrow> Inr payload)"
    by (simp add: verifySessionToken_signed verifySessionToken_payload_parsed)
  show "verifySessionToken rt env tok now_arg req secret_arg =
        Inl (TokenExpiredError ''Session token expired'')"
    using a v by (simp add: assertValidPayload_expired)
qed

theorem verifySessionToken_precedence_witness:
  "(\<exists>m. verifySessionToken test_rt test_env
          (signedToken test_rt (jwtHeader test_rt) (test_payload 1704067200 1704067290) ''test-secret'' @ ''x'')
          (Some 1704067290000) None (Some ''test-secret'') = Inl (TokenInvalidError m)) \<and>
   (\<exists>m. verifySessionToken test_rt test_env
          (signedToken test_rt (jwtHeader test_rt) (test_payload (- 60) 0) ''test-secret'')
          (Some 1704067290000) None (Some ''test-secret'') = Inl (TokenInvalidError m)) \<and>
   verifySessionToken test_rt test_env
     (signedToken test_rt (jwtHeader test_rt) (test_payload 1704067200 1704067290) ''test-secret'')
     (Some 1704067290000) (Some (ScopeString ''lecture'')) (Some ''test-secret'') =
       Inl (TokenExpiredError ''Session token expired'')"
  using verifySessionToken_precedence
          [where rt = test_rt and env = test_env and secret_arg = "Some ''test-secret''"
             and now_arg = "Some 1704067290000" and req = None
             and tok = "signedToken test_rt (jwtHeader test_rt) (test_payload 1704067200 1704067290) ''test-secret'' @ ''x''"
             and h = "jwtHeader test_rt"
             and p = "test_base64urlEncode (test_jsonStringify (test_payload 1704067200 1704067290))"
             and s = "test_base64urlEncode (''test-secret'' @ ''/'' @ jwtHeader test_rt @ ''.'' @
                        test_base64urlEncode (test_jsonStringify (test_payload 1704067200 1704067290))) @ ''x''"
             and e = "test_base64urlEncode (''test-secret'' @ ''/'' @ jwtHeader test_rt @ ''.'' @
                        test_base64urlEncode (test_jsonStringify (test_payload 1704067200 1704067290)))"]
        verifySessionToken_precedence
          [where rt = test_rt and env = test_env and secret_arg = "Some ''test-secret''"
             and now_arg = "Some 1704067290000" and req = None
             and tok = "signedToken test_rt (jwtHeader test_rt) (test_payload (- 60) 0) ''test-secret''"
             and h = "jwtHeader test_rt"
             and p = "test_base64urlEncode (test_jsonStringify (test_payload (- 60) 0))"
             and s = "test_base64urlEncode (''test-secret'' @ ''/'' @ jwtHeader test_rt @ ''.'' @
                        test_base64urlEncode (test_jsonStringify (test_payload (- 60) 0)))"
             and decoded = "test_jsonStringify (test_payload (- 60) 0)"
             and payload = "test_payload (- 60) 0"]
        verifySessionToken_precedence
          [where rt = test_rt and env = test_env and secret_arg = "Some ''test-secret''"
             and now_arg = "Some 1704067290000" and req = "Some (ScopeString ''lecture'')"
             and tok = "signedToken test_rt (jwtHeader test_rt) (test_payload 1704067200 1704067290) ''test-secret''"
             and h = "jwtHeader test_rt"
             and p = "test_base64urlEncode (test_jsonStringify (test_payload 1704067200 1704067290))"
             and s = "test_base64urlEncode (''test-secret'' @ ''/'' @ jwtHeader test_rt @ ''.'' @
                        test_base64urlEncode (test_jsonStringify (test_payload 1704067200 1704067290)))"
             and decoded = "test_jsonStringify (test_payload 1704067200 1704067290)"
             and payload = "test_payload 1704067200 1704067290"]
  by (simp add: test_tampered_split test_signedToken_split test_jwtHeader_no_dot defaultSecret_def
        defaultNow_def test_rt_simps test_hmacSha256_def test_base64url_roundtrip
        test_documents_parse test_payload_props truthy_simps isSessionTokenExpired_def toNumber_def mulDouble_def)

text \<open>C7 as stated fails: a validly signed token whose payload has \<open>exp = 0\<close> is expired
  at every instant from the epoch on, and its scope \<open>practice\<close> is not the required
  \<open>lecture\<close>; it fails with a \<open>TokenInvalidError\<close>, for the fields, not with the
  \<open>TokenExpiredError\<close>.\<close>

theorem verifySessionToken_precedence_counterexample:
  "isSessionTokenExpired test_rt (test_payload (- 60) 0) 0 \<and>
   getProp (test_payload (- 60) 0) ''scope'' = Some (JStr ''practice'') \<and>
   verifySessionToken test_rt test_env
     (signedToken test_rt (jwtHeader test_rt) (test_payload (- 60) 0) ''test-secret'')
     (Some 0) (Some (ScopeString ''lecture'')) (Some ''test-secret'') =
       Inl (TokenInvalidError ''Token payload missing fields'')"
  by (simp add: test_verify_signedToken test_jwtHeader_no_dot test_documents_parse
        assertValidPayload_def test_payload_props truthy_simps isSessionTokenExpired_def
        toNumber_def mulDouble_def)

text \<open>
  C10. For every header segment \<open>h\<close>, the token \<open>h.p.s\<close> with \<open>s\<close> the digest of \<open>h.p\<close>
  is verified as its payload segment alone is: the result is that of decoding, parsing
  and checking \<open>p\<close>, in which \<open>h\<close> does not occur; when \<open>p\<close> decodes to an object with
  \<open>exp\<close> and \<open>scope\<close> that is not expired, the token is accepted and the payload
  returned.
\<close>

theorem verifySessionToken_ignores_header:
  assumes "CHR ''.'' \<notin> set h" and "CHR ''.'' \<notin> set p" and "CHR ''.'' \<notin> set s"
    and "hmacSha256 rt (defaultSecret env secret_arg) (h @ ''.'' @ p) = Some s"
  shows "verifySessionToken rt env (h @ ''.'' @ p @ ''.'' @ s) now_arg req secret_arg =
           verifySessionToken_payload rt p (defaultNow env now_arg) req \<and>
         (base64urlDecode rt p = Some decoded \<and> jsonParse rt decoded = Some payload \<and>
          truthy (getProp payload ''exp'') \<and> truthy (getProp payload ''scope'') \<and>
          \<not> isSessionTokenExpired rt payload (defaultNow env now_arg) \<longrightarrow>
            verifySessionToken rt env (h @ ''.'' @ p @ ''.'' @ s) now_arg None secret_arg = Inr payload)"
proof -
  have sp: "split_on CHR ''.'' (h @ ''.'' @ p @ ''.'' @ s) = [h, p, s]"
    using assms(1-3) split_on_three [of "CHR ''.''" h p s] by simp
  have v: "\<And>r. verifySessionToken rt env (h @ ''.'' @ p @ ''.'' @ s) now_arg r secret_arg =
           verifySessionToken_payload rt p (defaultNow env now_arg) r"
    using sp assms(4) by (rule verifySessionToken_signed)
  show ?thesis
  proof (intro conjI impI)
    show "verifySessionToken rt env (h @ ''.'' @ p @ ''.'' @ s) now_arg req secret_arg =
           verifySessionToken_payload rt p (defaultNow env now_arg) req"
      by (rule v)
  next
    assume a: "base64urlDecode rt p = Some decoded \<and> jsonParse rt decoded = Some payload \<and>
          truthy (getProp payload ''exp'') \<and> truthy (getProp payload ''scope'') \<and>
          \<not> isSessionTokenExpired rt payload (defaultNow env now_arg)"
    then have "assertValidPayload rt payload (defaultNow env now_arg) None = None"
      by (simp add: assertValidPayload_ok)
    then show "verifySessionToken rt env (h @ ''.'' @ p @ ''.'' @ s) now_arg None secret_arg = Inr payload"
      using a by (subst v) (simp add: verifySessionToken_payload_parsed)
  qed
qed

theorem verifySessionToken_ignores_header_witness:
  "verifySessionToken test_rt test_env
     (''<not a header>'' @ ''.'' @
      test_base64urlEncode (test_jsonStringify (test_payload 1704067200 1704067290)) @ ''.'' @
      test_base64urlEncode (''test-secret'' @ ''/'' @ ''<not a header>'' @ ''.'' @
        test_base64urlEncode (test_jsonStringify (test_payload 1704067200 1704067290))))
     (Some test_now) None (Some ''test-secret'') = Inr (test_payload 1704067200 1704067290)"
proof -
  let ?h = "''<not a header>''"
  let ?p = "test_base64urlEncode (test_jsonStringify (test_payload 1704067200 1704067290))"
  let ?s = "test_base64urlEncode (''test-secret'' @ ''/'' @ ?h @ ''.'' @ ?p)"
  have h: "CHR ''.'' \<notin> set ?h" by simp
  have p: "CHR ''.'' \<notin> set ?p" and s: "CHR ''.'' \<notin> set ?s"
    by (rule test_base64url_no_dot)+
  have d: "hmacSha256 test_rt (defaultSecret test_env (Some ''test-secret'')) (?h @ ''.'' @ ?p) = Some ?s"
    by (simp add: defaultSecret_def test_rt_simps test_hmacSha256_def)
  have ok: "base64urlDecode test_rt ?p = Some (test_jsonStringify (test_payload 1704067200 1704067290)) \<and>
        jsonParse test_rt (test_jsonStringify (test_payload 1704067200 1704067290)) =
          Some (test_payload 1704067200 1704067290) \<and>
        truthy (getProp (test_payload 1704067200 1704067290) ''exp'') \<and>
        truthy (getProp (test_payload 1704067200 1704067290) ''scope'') \<and>
        \<not> isSessionTokenExpired test_rt (test_payload 1704067200 1704067290)
            (defaultNow test_env (Some test_now))"
    by (simp add: defaultNow_def test_rt_simps test_base64url_roundtrip test_documents_parse
          test_payload_props truthy_simps isSessionTokenExpired_def toNumber_def mulDouble_def test_now_def)
  show ?thesis
    using verifySessionToken_ignores_header [OF h p s d, THEN conjunct2] ok by blast
qed

section \<open>The request handler\<close>

text \<open>
  C9 (as amended). For a bearer token that is not empty after trimming,
  \<open>handleBearerToken\<close> answers 401 with the message of a \<open>TokenExpiredError\<close>, 403 with the
  message of a \<open>TokenInvalidError\<close>, and 500 with the fixed message for any other
  exception of \<open>verifySessionToken\<close>. When \<open>verifySessionToken\<close> returns a payload whose
  \<open>scope\<close> is a string and whose \<open>exp\<close> is a number with the double \<open>exp * 1000\<close> a date that
  \<open>Date.parse\<close> reads back, it answers 200 with the token as received, the date as ISO
  text and the scope; when the scope is no string or \<open>exp * 1000\<close> is no date, it
  answers 500 with the fixed message.
\<close>

theorem handleBearerToken_cases:
  assumes "tok = trim (slice1 authHeader (length ''bearer ''))" and "tok \<noteq> []"
  shows
    "(verifySessionToken rt env tok None None None = Inl (TokenExpiredError m) \<longrightarrow>
        handleBearerToken rt env authHeader = \<lparr>status = 401, body = [(''error'', m)]\<rparr>) \<and>
     (verifySessionToken rt env tok None None None = Inl (TokenInvalidError m) \<longrightarrow>
        handleBearerToken rt env authHeader = \<lparr>status = 403, body = [(''error'', m)]\<rparr>) \<and>
     (verifySessionToken rt env tok None None None = Inl (OtherError n) \<longrightarrow>
        handleBearerToken rt env authHeader =
          \<lparr>status = 500, body = [(''error'', ''Failed to validate session token'')]\<rparr>) \<and>
     (verifySessionToken rt env tok None None None = Inr payload \<and>
      getProp payload ''scope'' = Some (JStr sc) \<and> getProp payload ''exp'' = Some (JNum e) \<and>
      new_Date (Some (mulDouble e 1000)) = Some ms \<and> dateParse rt (isoFormat rt ms) \<noteq> None \<longrightarrow>
        handleBearerToken rt env authHeader =
          \<lparr>status = 200,
           body = [(''token'', tok), (''expiresAt'', isoFormat rt ms), (''scope'', sc)]\<rparr>) \<and>
     (verifySessionToken rt env tok None None None = Inr payload \<and>
      ((\<forall>sc. getProp payload ''scope'' \<noteq> Some (JStr sc)) \<or>
       new_Date (map_option (\<lambda>e. mulDouble e 1000) (toNumber rt (getProp payload ''exp''))) = None) \<longrightarrow>
        handleBearerToken rt env authHeader =
          \<lparr>status = 500, body = [(''error'', ''Failed to validate session token'')]\<rparr>)"
proof -
  have hb: "handleBearerToken rt env authHeader =
      (case handleBearerToken_try rt env tok of
         Inr response \<Rightarrow> response
       | Inl (TokenExpiredError msg) \<Rightarrow> \<lparr>status = 401, body = [(''error'', msg)]\<rparr>
       | Inl (TokenInvalidError msg) \<Rightarrow> \<lparr>status = 403, body = [(''error'', msg)]\<rparr>
       | Inl (OtherError name) \<Rightarrow>
           \<lparr>status = 500, body = [(''error'', ''Failed to validate session token'')]\<rparr>)"
    using assms by (rule handleBearerToken_unfold)
  have err: "\<And>x. verifySessionToken rt env tok None None None = Inl x \<Longrightarrow>
      handleBearerToken_try rt env tok = Inl x"
    by (simp add: handleBearerToken_try_def)
  show ?thesis
  proof (intro conjI impI)
    assume "verifySessionToken rt env tok None None None = Inl (TokenExpiredError m)"
    then show "handleBearerToken rt env authHeader = \<lparr>status = 401, body = [(''error'', m)]\<rparr>"
      by (simp add: hb err)
  next
    assume "verifySessionToken rt env tok None None None = Inl (TokenInvalidError m)"
    then show "handleBearerToken rt env authHeader = \<lparr>status = 403, body = [(''error'', m)]\<rparr>"
      by (simp add: hb err)
  next
    assume "verifySessionToken rt env tok None None None = Inl (OtherError n)"
    then show "handleBearerToken rt env authHeader =
          \<lparr>status = 500, body = [(''error'', ''Failed to validate session token'')]\<rparr>"
      by (simp add: hb err)
  next
    assume a: "verifySessionToken rt env tok None None None = Inr payload \<and>
      getProp payload ''scope'' = Some (JStr sc) \<and> getProp payload ''exp'' = Some (JNum e) \<and>
      new_Date (Some (mulDouble e 1000)) = Some ms \<and> dateParse rt (isoFormat rt ms) \<noteq> None"
    then have "truthy (getProp payload ''scope'')"
      using verifySessionToken_Inr by blast
    then have sc: "sc \<noteq> []" using a by (simp add: truthy_simps)
    have "handleBearerToken_try rt env tok =
        Inr \<lparr>status = 200,
             body = [(''token'', tok), (''expiresAt'', isoFormat rt ms), (''scope'', sc)]\<rparr>"
      using a sessionResponseSchema_parse [OF assms(2) sc, of rt "isoFormat rt ms"]
      by (simp add: handleBearerToken_try_def toNumber_def toISOString_def)
    then show "handleBearerToken rt env authHeader =
          \<lparr>status = 200,
           body = [(''token'', tok), (''expiresAt'', isoFormat rt ms), (''scope'', sc)]\<rparr>"
      by (simp add: hb)
  next
    assume a: "verifySessionToken rt env tok None None None = Inr payload \<and>
      ((\<forall>sc. getProp payload ''scope'' \<noteq> Some (JStr sc)) \<or>
       new_Date (map_option (\<lambda>e. mulDouble e 1000) (toNumber rt (getProp payload ''exp''))) = None)"
    have "\<exists>name. handleBearerToken_try rt env tok = Inl (OtherError name)"
    proof (cases "new_Date (map_option (\<lambda>e. mulDouble e 1000) (toNumber rt (getProp payload ''exp'')))")
      case None
      then show ?thesis using a by (simp add: handleBearerToken_try_def toISOString_def)
    next
      case (Some ms')
      then have "\<forall>sc. getProp payload ''scope'' \<noteq> Some (JStr sc)" using a by auto
      then show ?thesis
        using a Some sessionResponseSchema_parse_scope [of "getProp payload ''scope''" rt tok]
        by (simp add: handleBearerToken_try_def toISOString_def)
    qed
    then show "handleBearerToken rt env authHeader =
          \<lparr>status = 500, body = [(''error'', ''Failed to validate session token'')]\<rparr>"
      by (auto simp add: hb)
  qed
qed

theorem handleBearerToken_cases_witness:
  "handleBearerToken test_rt (test_env\<lparr>clock := 1704067290000\<rparr>)
     (''Bearer '' @ signedToken test_rt (jwtHeader test_rt) (test_payload 1704067200 1704067290) ''test-secret'') =
     \<lparr>status = 401, body = [(''error'', ''Session token expired'')]\<rparr> \<and>
   handleBearerToken test_rt test_env ''Bearer abc'' =
     \<lparr>status = 403, body = [(''error'', ''Token format is invalid'')]\<rparr> \<and>
   handleBearerToken failing_rt test_env ''Bearer a.b.c'' =
     \<lparr>status = 500, body = [(''error'', ''Failed to validate session token'')]\<rparr> \<and>
   handleBearerToken test_rt test_env
     (''Bearer '' @ signedToken test_rt (jwtHeader test_rt) (test_payload 1704067200 1704067290) ''test-secret'') =
     \<lparr>status = 200,
      body = [(''token'', signedToken test_rt (jwtHeader test_rt) (test_payload 1704067200 1704067290) ''test-secret''),
              (''expiresAt'', ''2024-01-01T00:01:30.000Z''), (''scope'', ''practice'')]\<rparr>"
proof (intro conjI)
  let ?T = "signedToken test_rt (jwtHeader test_rt) (test_payload 1704067200 1704067290) ''test-secret''"
  have eq: "?T = trim (slice1 (''Bearer '' @ ?T) (length ''bearer ''))"
    by (simp only: test_bearer_token)
  have ne: "?T \<noteq> []" by (rule test_token_not_Nil)
  have eq_abc: "''abc'' = trim (slice1 ''Bearer abc'' (length ''bearer ''))"
    by (simp add: slice1_def trim_def isWhiteSpace_def)
  have eq_dots: "''a.b.c'' = trim (slice1 ''Bearer a.b.c'' (length ''bearer ''))"
    by (simp add: slice1_def trim_def isWhiteSpace_def)
  show "handleBearerToken test_rt (test_env\<lparr>clock := 1704067290000\<rparr>) (''Bearer '' @ ?T) =
     \<lparr>status = 401, body = [(''error'', ''Session token expired'')]\<rparr>"
    using handleBearerToken_cases
            [where rt = test_rt and env = "test_env\<lparr>clock := 1704067290000\<rparr>"
               and m = "''Session token expired''", OF eq ne]
          test_verify_90(2)
    by blast
  show "handleBearerToken test_rt test_env ''Bearer abc'' =
     \<lparr>status = 403, body = [(''error'', ''Token format is invalid'')]\<rparr>"
    using handleBearerToken_cases
            [where rt = test_rt and env = test_env and m = "''Token format is invalid''", OF eq_abc]
          test_verify_plain(1)
    by blast
  show "handleBearerToken failing_rt test_env ''Bearer a.b.c'' =
     \<lparr>status = 500, body = [(''error'', ''Failed to validate session token'')]\<rparr>"
    using handleBearerToken_cases
            [where rt = failing_rt and env = test_env and n = "''Error''", OF eq_dots]
          test_verify_plain(2)
    by blast
  have ok: "getProp (test_payload 1704067200 1704067290) ''scope'' = Some (JStr ''practice'') \<and>
      getProp (test_payload 1704067200 1704067290) ''exp'' = Some (JNum 1704067290) \<and>
      new_Date (Some (mulDouble 1704067290 1000)) = Some 1704067290000 \<and>
      dateParse test_rt (isoFormat test_rt 1704067290000) \<noteq> None"
    by (simp add: test_payload_props new_Date_def test_rt_simps test_isoFormat_def mulDouble_def)
  have iso: "isoFormat test_rt 1704067290000 = ''2024-01-01T00:01:30.000Z''"
    by (simp add: test_rt_simps test_isoFormat_def)
  have "handleBearerToken test_rt test_env (''Bearer '' @ ?T) =
     \<lparr>status = 200,
      body = [(''token'', ?T), (''expiresAt'', isoFormat test_rt 1704067290000), (''scope'', ''practice'')]\<rparr>"
    using handleBearerToken_cases
            [where rt = test_rt and env = test_env
               and payload = "test_payload 1704067200 1704067290" and sc = "''practice''"
               and e = 1704067290 and ms = 1704067290000, OF eq ne]
          test_verify_90(1) ok
    by blast
  then show "handleBearerToken test_rt test_env (''Bearer '' @ ?T) =
     \<lparr>status = 200,
      body = [(''token'', ?T), (''expiresAt'', ''2024-01-01T00:01:30.000Z''), (''scope'', ''practice'')]\<rparr>"
    by (simp only: iso)
qed

text \<open>C9 as stated fails: for a validly signed token that expires beyond the last date
  (\<open>exp = 10^13\<close> seconds), \<open>verifySessionToken\<close> succeeds and the response is 500; so it is
  for a validly signed token whose scope is the number 5.\<close>

theorem handleBearerToken_success_counterexample:
  "verifySessionToken test_rt test_env
     (signedToken test_rt (jwtHeader test_rt) (test_payload 1704067200 10000000000000) ''test-secret'')
     None None None = Inr (test_payload 1704067200 10000000000000) \<and>
   handleBearerToken test_rt test_env
     (''Bearer '' @ signedToken test_rt (jwtHeader test_rt) (test_payload 1704067200 10000000000000) ''test-secret'') =
     \<lparr>status = 500, body = [(''error'', ''Failed to validate session token'')]\<rparr> \<and>
   verifySessionToken test_rt test_env
     (signedToken test_rt (jwtHeader test_rt) test_payload_scope5 ''test-secret'')
     None None None = Inr test_payload_scope5 \<and>
   handleBearerToken test_rt test_env
     (''Bearer '' @ signedToken test_rt (jwtHeader test_rt) test_payload_scope5 ''test-secret'') =
     \<lparr>status = 500, body = [(''error'', ''Failed to validate session token'')]\<rparr>"
proof -
  let ?T = "signedToken test_rt (jwtHeader test_rt) (test_payload 1704067200 10000000000000) ''test-secret''"
  let ?U = "signedToken test_rt (jwtHeader test_rt) test_payload_scope5 ''test-secret''"
  have t: "handleBearerToken_try test_rt test_env ?T = Inl (OtherError ''RangeError'')"
    by (simp add: handleBearerToken_try_def test_verify_far test_payload_props toNumber_def
          new_Date_def toISOString_def mulDouble_def test_doubles)
  have g: "getProp test_payload_scope5 ''scope'' = Some (JNum 5)"
    "getProp test_payload_scope5 ''exp'' = Some (JNum 1704067290)"
    by (simp_all add: test_payload_scope5_def getProp_def)
  have u: "handleBearerToken_try test_rt test_env ?U = Inl (OtherError ''ZodError'')"
    using sessionResponseSchema_parse_scope [of "Some (JNum 5)" test_rt ?U "isoFormat test_rt 1704067290000"]
    by (simp add: handleBearerToken_try_def test_verify_scope5 g
          toNumber_def new_Date_def toISOString_def mulDouble_def)
  have ht: "handleBearerToken test_rt test_env (''Bearer '' @ ?T) =
     \<lparr>status = 500, body = [(''error'', ''Failed to validate session token'')]\<rparr>"
  proof -
    have eq: "?T = trim (slice1 (''Bearer '' @ ?T) (length ''bearer ''))"
      by (simp only: test_bearer_token)
    have ne: "?T \<noteq> []" by (rule test_token_not_Nil)
    show ?thesis
      by (simp only: handleBearerToken_unfold [OF eq ne] t sum.case js_error.case)
  qed
  have hu: "handleBearerToken test_rt test_env (''Bearer '' @ ?U) =
     \<lparr>status = 500, body = [(''error'', ''Failed to validate session token'')]\<rparr>"
  proof -
    have eq: "?U = trim (slice1 (''Bearer '' @ ?U) (length ''bearer ''))"
      by (simp only: test_bearer_token)
    have ne: "?U \<noteq> []" by (rule test_token_not_Nil)
    show ?thesis
      by (simp only: handleBearerToken_unfold [OF eq ne] u sum.case js_error.case)
  qed
  show ?thesis
    using ht hu test_verify_far test_verify_scope5 by blast
qed

end
